theory Spec2Isabelle
  imports Complex_Main "HOL-Library.Word" "HOL-Library.Multiset"
begin

unbundle bit_operations_syntax

section \<open>Errors\<close>

text \<open>
  The Go code reports failures as error values built with \<open>fmt.Errorf\<close>. One constructor
  stands for each message the pipeline produces; \<open>Wrapped\<close> is \<open>fmt.Errorf("...: %w", err)\<close>
  and \<open>Panic\<close> is a run-time panic (\<open>resource.MustParse\<close> on a malformed quantity).
\<close>

text \<open>\<open>approval.Status\<close> is a string type with four named values; \<open>StatusOther\<close> is any
  other string (the zero value is \<open>StatusOther []\<close>).\<close>

datatype Status = StatusPending | StatusApproved | StatusDenied | StatusExpired | StatusOther string

datatype error =
    NoSourceProvided
  | InvalidSource string
  | NotFound string
  | ClusterError string
  | RegistryInvalid string
  | TooLarge nat int
  | TooLong nat int
  | BlockedCommand string
  | NotAllowed string
  | UnknownImageRef string
  | ImageBlocked string string
  | ImageNotApproved string
  | InvalidDuration string
  | ApprovalNotFound
  | DecodeError
  | NotPending Status
  | Unauthorized string
  | Denied
  | AwaitingApproval
  | SubmitFailed string
  | WaitFailed
  | ExitCode int
  | Panic string
  | Wrapped string error

section \<open>The parameter bag (structpb.Struct) and its readers\<close>

text \<open>
  A \<open>structpb.Value\<close> is a tagged union. \<open>NilValue\<close> is a nil \<open>*structpb.Value\<close> stored in
  a map or list. A \<open>*structpb.Struct\<close> is an optional association list: the Go code treats
  a nil struct and a struct with nil \<open>Fields\<close> alike everywhere, and \<open>map_of\<close> is the
  lookup \<open>m.Fields[key]\<close>. Numbers are float64 in Go; the model keeps them as rationals.
\<close>

datatype Value =
    NilValue
  | NullValue
  | NumberValue rat
  | StringValue string
  | BoolValue bool
  | StructValue "(string \<times> Value) list"
  | ListValue "Value list"

type_synonym Struct = "(string \<times> Value) list"

fun GetStringValue :: "Value \<Rightarrow> string" where
  "GetStringValue (StringValue s) = s"
| "GetStringValue _ = []"

fun GetStructValue :: "Value \<Rightarrow> Struct option" where
  "GetStructValue (StructValue fs) = Some fs"
| "GetStructValue _ = None"

fun GetListValue :: "Value \<Rightarrow> Value list option" where
  "GetListValue (ListValue vs) = Some vs"
| "GetListValue _ = None"

fun GetBoolValue :: "Value \<Rightarrow> bool" where
  "GetBoolValue (BoolValue b) = b"
| "GetBoolValue _ = False"

fun GetNumberValue :: "Value \<Rightarrow> rat" where
  "GetNumberValue (NumberValue r) = r"
| "GetNumberValue _ = 0"

text \<open>The field \<open>m.Fields[key]\<close> when the struct is there, the key is present and the
  stored pointer is not nil: the common prefix of all six readers.\<close>

definition field :: "Struct option \<Rightarrow> string \<Rightarrow> Value option" where
  "field m key =
     (case m of
        None \<Rightarrow> None
      | Some fs \<Rightarrow>
          (case map_of fs key of
             None \<Rightarrow> None
           | Some f \<Rightarrow> if f = NilValue then None else Some f))"

definition getString :: "Struct option \<Rightarrow> string \<Rightarrow> string \<Rightarrow> string" where
  "getString m key def =
     (case field m key of
        None \<Rightarrow> def
      | Some f \<Rightarrow> (let s = GetStringValue f in if s = [] then def else s))"

definition getMap :: "Struct option \<Rightarrow> string \<Rightarrow> Struct option" where
  "getMap m key = (case field m key of None \<Rightarrow> None | Some f \<Rightarrow> GetStructValue f)"

definition getList :: "Struct option \<Rightarrow> string \<Rightarrow> Value list option" where
  "getList m key = (case field m key of None \<Rightarrow> None | Some f \<Rightarrow> GetListValue f)"

definition getStringSlice :: "Struct option \<Rightarrow> string \<Rightarrow> string list option" where
  "getStringSlice m key =
     (case getList m key of None \<Rightarrow> None | Some l \<Rightarrow> Some (map GetStringValue l))"

definition getBool :: "Struct option \<Rightarrow> string \<Rightarrow> bool" where
  "getBool m key = (case field m key of None \<Rightarrow> False | Some f \<Rightarrow> GetBoolValue f)"

text \<open>\<open>int(f.GetNumberValue())\<close>, the conversion of a float64 to the 64-bit \<open>int\<close>: the
  fraction is dropped (truncation toward zero), and a value whose whole part does not fit
  in 64 bits converts to the smallest int64, \<open>- 2 ^ 63\<close>. (The Go specification leaves
  the result of such a conversion to the implementation; this is what the conversion
  instruction of amd64 returns.)\<close>

definition truncate_rat :: "rat \<Rightarrow> int" where
  "truncate_rat r =
     (let t = (if 0 \<le> r then \<lfloor>r\<rfloor> else \<lceil>r\<rceil>)
      in if - 9223372036854775808 \<le> t \<and> t < 9223372036854775808 then t
         else - 9223372036854775808)"

definition getInt :: "Struct option \<Rightarrow> string \<Rightarrow> int" where
  "getInt m key = (case field m key of None \<Rightarrow> 0 | Some f \<Rightarrow> truncate_rat (GetNumberValue f))"

definition parsePullPolicy :: "string \<Rightarrow> string" where
  "parsePullPolicy s =
     (if s = ''Always'' \<or> s = ''IfNotPresent'' \<or> s = ''Never'' then s else ''IfNotPresent'')"

text \<open>\<open>int32(x)\<close>: the low 32 bits, read as a signed number.\<close>

definition int32 :: "int \<Rightarrow> int" where
  "int32 x = sint (word_of_int x :: 32 word)"

section \<open>Library functions the pipeline calls\<close>

text \<open>
  The pipeline calls into Go's standard library and the cluster client libraries. Those
  functions are parameters of the model, collected in one record:
  \<^item> \<open>ParseDuration\<close> is \<open>time.ParseDuration\<close>, the result in nanoseconds, \<open>None\<close> an error;
  \<^item> \<open>MustParse\<close> is \<open>resource.MustParse\<close>, \<open>None\<close> its panic; quantities are compared with
    \<open>Cmp\<close>, the order of the type \<open>'q\<close>;
  \<^item> \<open>QuantityString\<close> is \<open>Quantity.String\<close>;
  \<^item> \<open>EqualFold\<close> is \<open>strings.EqualFold\<close>;
  \<^item> \<open>Sha256Hex\<close> is \<open>hex.EncodeToString\<close> of \<open>sha256.Sum256\<close>;
  \<^item> \<open>ValidUTF8\<close> is \<open>utf8.ValidString\<close>, which \<open>structpb.NewStruct\<close> asks of every string;
  \<^item> \<open>RegistryYaml\<close> is \<open>yaml.Unmarshal\<close> into \<open>RegistryData\<close>, giving the \<open>Scripts\<close> map;
  \<^item> \<open>CatalogYaml\<close> is \<open>yaml.Unmarshal\<close> into the catalog map.
\<close>

record RegistryEntry =
  reg_ConfigMap :: string
  reg_Secret :: string
  reg_Key :: string

record CatalogEntry =
  cat_Image :: string
  cat_PullSecret :: string

record 'q Lib =
  ParseDuration :: "string \<Rightarrow> int option"
  MustParse :: "string \<Rightarrow> 'q option"
  QuantityString :: "'q \<Rightarrow> string"
  EqualFold :: "string \<Rightarrow> string \<Rightarrow> bool"
  Sha256Hex :: "string \<Rightarrow> string"
  ValidUTF8 :: "string \<Rightarrow> bool"
  RegistryYaml :: "string \<Rightarrow> (string \<times> RegistryEntry) list option"
  CatalogYaml :: "string \<Rightarrow> (string \<times> CatalogEntry) list option"

section \<open>Configuration (internal/config/config.go)\<close>

text \<open>The sections of \<open>Config.ScriptExecutor\<close> which the pipeline reads.\<close>

record ResourceRequests =
  req_CPU :: string
  req_Memory :: string

record ResourceLimits =
  lim_CPU :: string
  lim_Memory :: string
  lim_EphemeralStorage :: string

record ResourceConfig =
  Requests :: ResourceRequests
  Limits :: ResourceLimits

record JobDefaultsConfig =
  jd_TTLSecondsAfterFinished :: int
  jd_BackoffLimit :: int
  jd_ActiveDeadlineSeconds :: int

record KubernetesConfig =
  Namespace :: string
  ServiceAccount :: string
  JobDefaults :: JobDefaultsConfig
  DefaultResources :: ResourceConfig
  MaxResources :: ResourceConfig

record ImageConfig =
  DefaultImage :: string
  DefaultImagePullSecret :: string
  DefaultImagePullPolicy :: string
  ApprovedImages :: "string list"
  BlockedImages :: "string list"
  CatalogConfigMapName :: string

record SecurityConfig =
  BlockedCommands :: "string list"
  MaxScriptSize :: int
  MaxScriptLines :: int
  DefaultTimeout :: string
  MaxTimeout :: string
  RunAsNonRoot :: bool
  RunAsUser :: int
  FSGroup :: int
  ReadOnlyRootFilesystem :: bool
  AllowPrivilegeEscalation :: bool
  DropAllCapabilities :: bool

record ApprovalConfig =
  ApprovalEnabled :: bool
  StorageConfigMapName :: string
  DefaultApprovers :: "string list"

record AuditConfig =
  AuditEnabled :: bool
  LogFile :: string

record Config =
  Kubernetes :: KubernetesConfig
  Image :: ImageConfig
  Security :: SecurityConfig
  Approval :: ApprovalConfig
  Audit :: AuditConfig

text \<open>\<open>defaultConfig\<close>; the two arguments are the environment's \<open>KUBERNETES_NAMESPACE\<close> and
  \<open>DEFAULT_IMAGE\<close> after \<open>getEnvOrDefault\<close>, and \<open>DEFAULT_IMAGE_PULL_SECRET\<close>.\<close>

definition getEnvOrDefault :: "string \<Rightarrow> string \<Rightarrow> string" where
  "getEnvOrDefault v defaultValue = (if v \<noteq> [] then v else defaultValue)"

definition defaultConfig :: "string \<Rightarrow> string \<Rightarrow> string \<Rightarrow> Config" where
  "defaultConfig envNamespace envImage envPullSecret =
     \<lparr> Kubernetes =
         \<lparr> Namespace = getEnvOrDefault envNamespace ''opscontrolroom-system'',
           ServiceAccount = ''script-executor-runner'',
           JobDefaults = \<lparr> jd_TTLSecondsAfterFinished = 300, jd_BackoffLimit = 0,
                           jd_ActiveDeadlineSeconds = 1800 \<rparr>,
           DefaultResources =
             \<lparr> Requests = \<lparr> req_CPU = ''100m'', req_Memory = ''64Mi'' \<rparr>,
               Limits = \<lparr> lim_CPU = ''500m'', lim_Memory = ''256Mi'',
                          lim_EphemeralStorage = ''1Gi'' \<rparr> \<rparr>,
           MaxResources =
             \<lparr> Requests = \<lparr> req_CPU = [], req_Memory = [] \<rparr>,
               Limits = \<lparr> lim_CPU = ''4000m'', lim_Memory = ''8Gi'',
                          lim_EphemeralStorage = ''20Gi'' \<rparr> \<rparr> \<rparr>,
       Image =
         \<lparr> DefaultImage = getEnvOrDefault envImage ''alpine:latest'',
           DefaultImagePullSecret = getEnvOrDefault envPullSecret [],
           DefaultImagePullPolicy = ''IfNotPresent'',
           ApprovedImages = [],
           BlockedImages = [],
           CatalogConfigMapName = ''script-image-catalog'' \<rparr>,
       Security =
         \<lparr> BlockedCommands =
             [''rm'', ''dd'', ''mkfs'', ''fdisk'', ''mkswap'', ''sudo'', ''su'', ''setuid'',
              ''reboot'', ''shutdown'', ''init'', ''systemctl'', ''nmap'', ''masscan'',
              ''kill'', ''killall'', ''pkill''],
           MaxScriptSize = 524288,
           MaxScriptLines = 1000,
           DefaultTimeout = ''5m'',
           MaxTimeout = ''30m'',
           RunAsNonRoot = True,
           RunAsUser = 65534,
           FSGroup = 65534,
           ReadOnlyRootFilesystem = True,
           AllowPrivilegeEscalation = False,
           DropAllCapabilities = True \<rparr>,
       Approval =
         \<lparr> ApprovalEnabled = True,
           StorageConfigMapName = ''script-approvals'',
           DefaultApprovers = [''sre-leads''] \<rparr>,
       Audit = \<lparr> AuditEnabled = True, LogFile = ''/var/log/ocr/script-audit.log'' \<rparr> \<rparr>"

text \<open>\<open>mergeConfig(dst, src)\<close>, on the sections above: only the fields it names are taken
  from the file; every other field of \<open>dst\<close> stays.\<close>

definition mergeConfig :: "Config \<Rightarrow> Config \<Rightarrow> Config" where
  "mergeConfig dst src =
     (let k = Kubernetes dst; sk = Kubernetes src;
          k1 = (if Namespace sk \<noteq> [] then k\<lparr>Namespace := Namespace sk\<rparr> else k);
          k2 = (if ServiceAccount sk \<noteq> [] then k1\<lparr>ServiceAccount := ServiceAccount sk\<rparr> else k1);
          j = JobDefaults k2; sj = JobDefaults sk;
          j1 = (if jd_TTLSecondsAfterFinished sj \<noteq> 0
                then j\<lparr>jd_TTLSecondsAfterFinished := jd_TTLSecondsAfterFinished sj\<rparr> else j);
          j2 = (if jd_BackoffLimit sj \<noteq> 0 \<or> jd_ActiveDeadlineSeconds sj \<noteq> 0
                then j1\<lparr>jd_BackoffLimit := jd_BackoffLimit sj,
                        jd_ActiveDeadlineSeconds := jd_ActiveDeadlineSeconds sj\<rparr> else j1);
          k3 = k2\<lparr>JobDefaults := j2\<rparr>;
          i = Image dst; si = Image src;
          i1 = (if DefaultImage si \<noteq> [] then i\<lparr>DefaultImage := DefaultImage si\<rparr> else i);
          i2 = (if DefaultImagePullSecret si \<noteq> []
                then i1\<lparr>DefaultImagePullSecret := DefaultImagePullSecret si\<rparr> else i1);
          i3 = (if ApprovedImages si \<noteq> [] then i2\<lparr>ApprovedImages := ApprovedImages si\<rparr> else i2);
          i4 = (if BlockedImages si \<noteq> [] then i3\<lparr>BlockedImages := BlockedImages si\<rparr> else i3);
          s = Security dst; ss = Security src;
          s1 = (if MaxScriptSize ss \<noteq> 0 then s\<lparr>MaxScriptSize := MaxScriptSize ss\<rparr> else s);
          s2 = (if MaxScriptLines ss \<noteq> 0 then s1\<lparr>MaxScriptLines := MaxScriptLines ss\<rparr> else s1);
          a = Approval dst; sa = Approval src;
          a1 = (if StorageConfigMapName sa \<noteq> []
                then a\<lparr>StorageConfigMapName := StorageConfigMapName sa\<rparr> else a);
          u = Audit dst; su = Audit src;
          u1 = (if LogFile su \<noteq> [] then u\<lparr>LogFile := LogFile su\<rparr> else u)
      in dst\<lparr>Kubernetes := k3, Image := i4, Security := s2, Approval := a1, Audit := u1\<rparr>)"

text \<open>\<open>applyEnvOverrides\<close> on the sections above.\<close>

definition applyEnvOverrides :: "string \<Rightarrow> string \<Rightarrow> Config \<Rightarrow> Config" where
  "applyEnvOverrides envNamespace envImage cfg =
     (let c1 = (if envNamespace \<noteq> []
                then cfg\<lparr>Kubernetes := (Kubernetes cfg)\<lparr>Namespace := envNamespace\<rparr>\<rparr> else cfg)
      in if envImage \<noteq> [] then c1\<lparr>Image := (Image c1)\<lparr>DefaultImage := envImage\<rparr>\<rparr> else c1)"

text \<open>\<open>Load\<close>: the defaults, the parsed configuration file merged in when \<open>CONFIG_PATH\<close> names
  one (\<open>Some\<close>), then the environment overrides. Reading and parsing the file are outside
  the model, so \<open>Load\<close> here has no error case.\<close>

definition Load :: "Config option \<Rightarrow> string \<Rightarrow> string \<Rightarrow> string \<Rightarrow> Config" where
  "Load fileConfig envNamespace envImage envPullSecret =
     (let cfg = defaultConfig envNamespace envImage envPullSecret;
          cfg1 = (case fileConfig of None \<Rightarrow> cfg | Some f \<Rightarrow> mergeConfig cfg f)
      in applyEnvOverrides envNamespace envImage cfg1)"

text \<open>\<open>Config.DefaultTimeout\<close> and \<open>Config.MaxTimeout\<close>, in nanoseconds.\<close>

definition minute :: int where
  "minute = 60 * 1000000000"

definition cfgDefaultTimeout :: "'q Lib \<Rightarrow> Config \<Rightarrow> int" where
  "cfgDefaultTimeout L c =
     (case ParseDuration L (DefaultTimeout (Security c)) of None \<Rightarrow> 5 * minute | Some d \<Rightarrow> d)"

definition cfgMaxTimeout :: "'q Lib \<Rightarrow> Config \<Rightarrow> int" where
  "cfgMaxTimeout L c =
     (case ParseDuration L (MaxTimeout (Security c)) of None \<Rightarrow> 30 * minute | Some d \<Rightarrow> d)"

section \<open>Script sources (internal/script/loader.go)\<close>

datatype SourceType = SourceInline | SourceConfigMap | SourceSecret | SourcePath | SourceRegistry

record Source =
  src_Type :: SourceType
  src_Content :: string
  src_Path :: string
  src_Name :: string
  src_Key :: string
  src_Namespace :: string

section \<open>The execution context and BuildContext\<close>

datatype ResourceName = ResourceCPU | ResourceMemory | ResourceEphemeralStorage

record 'q ResourceRequirements =
  res_Requests :: "ResourceName \<rightharpoonup> 'q"
  res_Limits :: "ResourceName \<rightharpoonup> 'q"

record SecretKeyRef =
  skr_SecretName :: string
  skr_Key :: string
  skr_Optional :: bool

record ConfigMapKeyRef =
  ckr_ConfigMapName :: string
  ckr_Key :: string
  ckr_Optional :: bool

record KeyToPath =
  ktp_Key :: string
  ktp_Path :: string
  ktp_Mode :: "int option"

record SecretVolume =
  sv_SecretName :: string
  sv_MountPath :: string
  sv_Optional :: bool
  sv_Items :: "KeyToPath list"

record ConfigMapVolume =
  cv_ConfigMapName :: string
  cv_MountPath :: string
  cv_Optional :: bool
  cv_Items :: "KeyToPath list"

text \<open>Tolerations and affinity are cluster types that the builder passes through
  untouched; \<open>BuildContext\<close> never sets them.\<close>

record Toleration =
  tol_Key :: string
  tol_Operator :: string
  tol_Value :: string
  tol_Effect :: string

datatype Affinity = Affinity string

text \<open>The inbound \<open>executorv1.ExecutionContext\<close>.\<close>

record ExecutionContext =
  ExecutionId :: string
  RunbookId :: string
  ec_User :: string

text \<open>\<open>Context\<close> of internal/execution/types.go. A Go map is an association list: its
  order is the order in which \<open>range\<close> visits the entries in this run. \<open>Timeout\<close> is a
  \<open>time.Duration\<close>, in nanoseconds.\<close>

record 'q Context =
  ExecutionID :: string
  RunbookID :: string
  User :: string
  StepName :: string
  Script :: string
  ScriptSource :: "Source option"
  ScriptHash :: string
  ctx_Image :: string
  ImagePullPolicy :: string
  ImagePullSecret :: string
  Interpreter :: string
  Args :: "string list"
  WorkingDir :: string
  Timeout :: int
  Stdin :: string
  Env :: "(string \<times> string) list"
  EnvFromSecret :: "(string \<times> SecretKeyRef) list"
  EnvFromConfigMap :: "(string \<times> ConfigMapKeyRef) list"
  SecretEnvAll :: "string list"
  ConfigMapEnvAll :: "string list"
  VolumesFromSecret :: "SecretVolume list"
  VolumesFromConfigMap :: "ConfigMapVolume list"
  NodeSelector :: "(string \<times> string) list"
  Tolerations :: "Toleration list"
  ctx_Affinity :: "Affinity option"
  PriorityClassName :: string
  Resources :: "'q ResourceRequirements"
  ctx_ServiceAccount :: string
  TTLSecondsAfterFinished :: int
  BackoffLimit :: int
  Labels :: "(string \<times> string) list"
  Annotations :: "(string \<times> string) list"

definition bindE :: "error + 'a \<Rightarrow> ('a \<Rightarrow> error + 'b) \<Rightarrow> error + 'b" where
  "bindE m f = (case m of Inl e \<Rightarrow> Inl e | Inr x \<Rightarrow> f x)"

text \<open>\<open>parseDuration\<close> of internal/execution/params.go.\<close>

definition parseDuration :: "'q Lib \<Rightarrow> string \<Rightarrow> error + int" where
  "parseDuration L s =
     (if s = [] then Inr 0
      else case ParseDuration L s of None \<Rightarrow> Inl (InvalidDuration s) | Some d \<Rightarrow> Inr d)"

text \<open>The statement \<open>if s != "" { list[name] = resource.MustParse(s) }\<close> of \<open>buildResources\<close>.\<close>

definition setQuantity ::
  "'q Lib \<Rightarrow> string \<Rightarrow> ResourceName \<Rightarrow> (ResourceName \<rightharpoonup> 'q) \<Rightarrow> error + (ResourceName \<rightharpoonup> 'q)" where
  "setQuantity L s name rl =
     (if s = [] then Inr rl
      else case MustParse L s of None \<Rightarrow> Inl (Panic s) | Some q \<Rightarrow> Inr (rl(name \<mapsto> q)))"

text \<open>The block \<open>if max != "" { maxq := MustParse(max); if lim, ok := limits[name];
  ok && lim.Cmp(maxq) > 0 { limits[name] = maxq } }\<close> of \<open>buildResources\<close>.\<close>

definition capQuantity ::
  "('q::linorder) Lib \<Rightarrow> string \<Rightarrow> ResourceName \<Rightarrow> (ResourceName \<rightharpoonup> 'q) \<Rightarrow> error + (ResourceName \<rightharpoonup> 'q)" where
  "capQuantity L s name rl =
     (if s = [] then Inr rl
      else case MustParse L s of
             None \<Rightarrow> Inl (Panic s)
           | Some maxq \<Rightarrow>
               (case rl name of
                  None \<Rightarrow> Inr rl
                | Some lim0 \<Rightarrow> if lim0 > maxq then Inr (rl(name \<mapsto> maxq)) else Inr rl))"

text \<open>\<open>buildResources\<close>. The nested tests \<open>res != nil\<close>, \<open>reqs != nil\<close>, \<open>lims != nil\<close> are folded
  into the readers: \<open>getMap\<close> of a nil struct is nil and \<open>getString\<close> of a nil struct is the
  default \<open>""\<close>, for which nothing is set. The statements run in the source's order, so the
  first malformed quantity is the one that panics.\<close>

definition buildResources :: "('q::linorder) Lib \<Rightarrow> Struct option \<Rightarrow> Config \<Rightarrow> error + 'q ResourceRequirements" where
  "buildResources L params cfg =
     (let defaultReqs = DefaultResources (Kubernetes cfg);
          defaultLimits = Limits (MaxResources (Kubernetes cfg));
          res = getMap params ''resources'';
          reqs = getMap res ''requests'';
          lims = getMap res ''limits''
      in
      bindE (setQuantity L (req_CPU (Requests defaultReqs)) ResourceCPU Map.empty) (\<lambda>r1.
      bindE (setQuantity L (req_Memory (Requests defaultReqs)) ResourceMemory r1) (\<lambda>r2.
      bindE (setQuantity L (lim_CPU (Limits defaultReqs)) ResourceCPU Map.empty) (\<lambda>l1.
      bindE (setQuantity L (lim_Memory (Limits defaultReqs)) ResourceMemory l1) (\<lambda>l2.
      bindE (setQuantity L (lim_EphemeralStorage (Limits defaultReqs)) ResourceEphemeralStorage l2) (\<lambda>l3.
      bindE (setQuantity L (getString reqs ''cpu'' []) ResourceCPU r2) (\<lambda>r3.
      bindE (setQuantity L (getString reqs ''memory'' []) ResourceMemory r3) (\<lambda>r4.
      bindE (setQuantity L (getString lims ''cpu'' []) ResourceCPU l3) (\<lambda>l4.
      bindE (setQuantity L (getString lims ''memory'' []) ResourceMemory l4) (\<lambda>l5.
      bindE (setQuantity L (getString lims ''ephemeral_storage'' []) ResourceEphemeralStorage l5) (\<lambda>l6.
      bindE (capQuantity L (lim_CPU defaultLimits) ResourceCPU l6) (\<lambda>l7.
      bindE (capQuantity L (lim_Memory defaultLimits) ResourceMemory l7) (\<lambda>l8.
      Inr \<lparr> res_Requests = r4, res_Limits = l8 \<rparr>)))))))))))))"

text \<open>The loops of \<open>BuildContext\<close> over the sub-bags.\<close>

definition stringEntries :: "Struct option \<Rightarrow> (string \<times> string) list" where
  "stringEntries m =
     (case m of
        None \<Rightarrow> []
      | Some fs \<Rightarrow> map (\<lambda>(k, v). (k, GetStringValue v)) (filter (\<lambda>(k, v). v \<noteq> NilValue) fs))"

definition secretRefEntries :: "Struct option \<Rightarrow> (string \<times> SecretKeyRef) list" where
  "secretRefEntries m =
     (case m of
        None \<Rightarrow> []
      | Some fs \<Rightarrow>
          List.map_filter (\<lambda>(name, v).
            case GetStructValue v of
              None \<Rightarrow> None
            | Some s \<Rightarrow> Some (name, \<lparr> skr_SecretName = getString (Some s) ''secret_name'' [],
                                      skr_Key = getString (Some s) ''key'' [],
                                      skr_Optional = getBool (Some s) ''optional'' \<rparr>)) fs)"

definition configMapRefEntries :: "Struct option \<Rightarrow> (string \<times> ConfigMapKeyRef) list" where
  "configMapRefEntries m =
     (case m of
        None \<Rightarrow> []
      | Some fs \<Rightarrow>
          List.map_filter (\<lambda>(name, v).
            case GetStructValue v of
              None \<Rightarrow> None
            | Some s \<Rightarrow> Some (name, \<lparr> ckr_ConfigMapName = getString (Some s) ''configmap_name'' [],
                                      ckr_Key = getString (Some s) ''key'' [],
                                      ckr_Optional = getBool (Some s) ''optional'' \<rparr>)) fs)"

definition volumeItems :: "Value list option \<Rightarrow> KeyToPath list" where
  "volumeItems items =
     (case items of
        None \<Rightarrow> []
      | Some l \<Rightarrow>
          List.map_filter (\<lambda>it.
            case GetStructValue it of
              None \<Rightarrow> None
            | Some s \<Rightarrow> Some \<lparr> ktp_Key = getString (Some s) ''key'' [],
                               ktp_Path = getString (Some s) ''path'' [],
                               ktp_Mode = None \<rparr>) l)"

definition secretVolumes :: "Value list option \<Rightarrow> SecretVolume list" where
  "secretVolumes volList =
     (case volList of
        None \<Rightarrow> []
      | Some l \<Rightarrow>
          List.map_filter (\<lambda>v.
            case GetStructValue v of
              None \<Rightarrow> None
            | Some s \<Rightarrow> Some \<lparr> sv_SecretName = getString (Some s) ''secret_name'' [],
                               sv_MountPath = getString (Some s) ''mount_path'' [],
                               sv_Optional = getBool (Some s) ''optional'',
                               sv_Items = volumeItems (getList (Some s) ''items'') \<rparr>) l)"

definition configMapVolumes :: "Value list option \<Rightarrow> ConfigMapVolume list" where
  "configMapVolumes volList =
     (case volList of
        None \<Rightarrow> []
      | Some l \<Rightarrow>
          List.map_filter (\<lambda>v.
            case GetStructValue v of
              None \<Rightarrow> None
            | Some s \<Rightarrow> Some \<lparr> cv_ConfigMapName = getString (Some s) ''configmap_name'' [],
                               cv_MountPath = getString (Some s) ''mount_path'' [],
                               cv_Optional = getBool (Some s) ''optional'',
                               cv_Items = volumeItems (getList (Some s) ''items'') \<rparr>) l)"

definition sliceOrEmpty :: "'a list option \<Rightarrow> 'a list" where
  "sliceOrEmpty l = (case l of None \<Rightarrow> [] | Some xs \<Rightarrow> xs)"

text \<open>\<open>BuildContext\<close>. The argument \<open>imagePullPolicy\<close> (the resolver's answer) is accepted
  and, as in the source, never read. The timeout is parsed before the resources are
  built, so an invalid duration is reported before any quantity can panic.\<close>

definition BuildContext ::
  "('q::linorder) Lib \<Rightarrow> Struct option \<Rightarrow> ExecutionContext option \<Rightarrow> string \<Rightarrow> Source option \<Rightarrow> string \<Rightarrow>
   string \<Rightarrow> string \<Rightarrow> string \<Rightarrow> Config \<Rightarrow> error + 'q Context" where
  "BuildContext L params execCtx scriptContent source scriptHash img imagePullPolicy imagePullSecret cfg =
     (let pp0 = parsePullPolicy (getString params ''image_pull_policy'' []);
          pp = (if pp0 = [] then DefaultImagePullPolicy (Image cfg) else pp0);
          timeoutStr = getString params ''timeout'' (DefaultTimeout (Security cfg));
          ttl = getInt params ''ttl_seconds_after_finished'';
          bl = getInt params ''backoff_limit''
      in
      bindE (parseDuration L timeoutStr) (\<lambda>dur.
      bindE (buildResources L params cfg) (\<lambda>resources.
      Inr \<lparr> ExecutionID = (case execCtx of None \<Rightarrow> [] | Some e \<Rightarrow> ExecutionId e),
            RunbookID = (case execCtx of None \<Rightarrow> [] | Some e \<Rightarrow> RunbookId e),
            User = (case execCtx of None \<Rightarrow> [] | Some e \<Rightarrow> ec_User e),
            StepName = [],
            Script = scriptContent,
            ScriptSource = source,
            ScriptHash = scriptHash,
            ctx_Image = img,
            ImagePullPolicy = pp,
            ImagePullSecret = imagePullSecret,
            Interpreter = getString params ''interpreter'' ''/bin/bash'',
            Args = sliceOrEmpty (getStringSlice params ''args''),
            WorkingDir = getString params ''working_dir'' ''/workspace'',
            Timeout = (if dur = 0 then cfgDefaultTimeout L cfg else dur),
            Stdin = getString params ''stdin'' [],
            Env = stringEntries (getMap params ''env''),
            EnvFromSecret = secretRefEntries (getMap params ''env_from_secret''),
            EnvFromConfigMap = configMapRefEntries (getMap params ''env_from_configmap''),
            SecretEnvAll = sliceOrEmpty (getStringSlice params ''secret_env_all''),
            ConfigMapEnvAll = sliceOrEmpty (getStringSlice params ''configmap_env_all''),
            VolumesFromSecret = secretVolumes (getList params ''volumes_from_secret''),
            VolumesFromConfigMap = configMapVolumes (getList params ''volumes_from_configmap''),
            NodeSelector = stringEntries (getMap params ''node_selector''),
            Tolerations = [],
            ctx_Affinity = None,
            PriorityClassName = getString params ''priority_class_name'' [],
            Resources = resources,
            ctx_ServiceAccount = ServiceAccount (Kubernetes cfg),
            TTLSecondsAfterFinished =
              (if ttl > 0 then int32 ttl
               else int32 (jd_TTLSecondsAfterFinished (JobDefaults (Kubernetes cfg)))),
            BackoffLimit =
              (if bl \<ge> 0 then (if int32 bl > 3 then 3 else int32 bl)
               else int32 (jd_BackoffLimit (JobDefaults (Kubernetes cfg)))),
            Labels = stringEntries (getMap params ''labels''),
            Annotations = stringEntries (getMap params ''annotations'') \<rparr>)))"

section \<open>The workload builder (internal/execution/job_builder.go)\<close>

text \<open>
  The manifest is a \<open>batchv1.Job\<close>. The model keeps the fields the builder sets, with the
  nesting \<open>Job / Spec / Template / PodSpec\<close> flattened into one record and the single-field
  wrappers dropped. A pointer made by \<open>ptr.To\<close> is \<open>Some\<close>. Maps of the manifest are maps
  of HOL, so that two manifests that differ only in the order of map keys are equal. An
  empty-dir size limit is kept as the text of its quantity.
\<close>

record SecurityContext =
  sc_AllowPrivilegeEscalation :: "bool option"
  sc_ReadOnlyRootFilesystem :: "bool option"
  sc_RunAsNonRoot :: "bool option"
  sc_RunAsUser :: "int option"
  sc_CapabilitiesDrop :: "string list"

record PodSecurityContext =
  psc_RunAsNonRoot :: "bool option"
  psc_RunAsUser :: "int option"
  psc_FSGroup :: "int option"
  psc_SeccompProfileType :: string

datatype EnvVarSource =
    SecretKeySelector string string "bool option"
  | ConfigMapKeySelector string string "bool option"

record EnvVar =
  ev_Name :: string
  ev_Value :: string
  ev_ValueFrom :: "EnvVarSource option"

datatype EnvFromSource = SecretRef string | ConfigMapRef string

record VolumeMount =
  vm_Name :: string
  vm_MountPath :: string
  vm_ReadOnly :: bool

datatype VolumeSource =
    EmptyDir string
  | SecretVolumeSource string "bool option" "KeyToPath list"
  | ConfigMapVolumeSource string "bool option" "KeyToPath list"

record Volume =
  vol_Name :: string
  vol_Source :: VolumeSource

record 'q Container =
  c_Name :: string
  c_Image :: string
  c_ImagePullPolicy :: string
  c_WorkingDir :: string
  c_Env :: "EnvVar list"
  c_EnvFrom :: "EnvFromSource list"
  c_SecurityContext :: "SecurityContext option"
  c_Resources :: "'q ResourceRequirements"
  c_VolumeMounts :: "VolumeMount list"
  c_Stdin :: bool
  c_StdinOnce :: bool
  c_Command :: "string list"
  c_Args :: "string list"

record 'q Job =
  job_Name :: string
  job_Namespace :: string
  job_Labels :: "string \<rightharpoonup> string"
  job_Annotations :: "string \<rightharpoonup> string"
  spec_BackoffLimit :: "int option"
  spec_TTLSecondsAfterFinished :: "int option"
  spec_ActiveDeadlineSeconds :: "int option"
  tmpl_Labels :: "string \<rightharpoonup> string"
  tmpl_Annotations :: "string \<rightharpoonup> string"
  pod_RestartPolicy :: string
  pod_ServiceAccountName :: string
  pod_SecurityContext :: "PodSecurityContext option"
  pod_NodeSelector :: "string \<rightharpoonup> string"
  pod_Tolerations :: "Toleration list"
  pod_Affinity :: "Affinity option"
  pod_PriorityClassName :: string
  pod_Containers :: "'q Container list"
  pod_Volumes :: "Volume list"
  pod_ImagePullSecrets :: "string list"

text \<open>\<open>fmt.Sprintf("%d", n)\<close>.\<close>

function showNat :: "nat \<Rightarrow> string" where
  "showNat n = (if n < 10 then [char_of (48 + n)] else showNat (n div 10) @ [char_of (48 + n mod 10)])"
  by pat_completeness auto
termination
  by (relation "measure id") auto

definition showInt :: "int \<Rightarrow> string" where
  "showInt i = (if i < 0 then CHR ''-'' # showNat (nat (- i)) else showNat (nat i))"

text \<open>\<open>sanitizeLabel\<close>: both \<open>strings.ReplaceAll\<close> calls replace one byte by the same byte.\<close>

definition sanitizeLabel :: "string \<Rightarrow> string" where
  "sanitizeLabel s =
     (let s1 = map (\<lambda>c. if c = CHR ''/'' then CHR ''-'' else c) s;
          s2 = map (\<lambda>c. if c = CHR ''.'' then CHR ''-'' else c) s1
      in if length s2 > 63 then take 63 s2 else s2)"

text \<open>
  The active deadline is \<open>int64(ctx.Timeout.Seconds())\<close>, and \<open>Duration.Seconds\<close> computes in
  float64: \<open>float64(d / Second) + float64(d % Second) / 1e9\<close>. A float64 is kept as the
  rational it denotes. \<open>float64 x\<close> is \<open>x\<close> rounded to the nearest number with a 53-bit
  significand, ties to the even significand, which is the result of every float64
  operation on the exact value \<open>x\<close> as long as \<open>x\<close> is 0 or in the normal range; the values
  met here are whole numbers below \<open>2 ^ 63\<close> and quotients between \<open>1 / 10 ^ 9\<close> and 1.
\<close>

definition pow2 :: "int \<Rightarrow> rat" where
  "pow2 e = (if 0 \<le> e then 2 ^ nat e else 1 / 2 ^ nat (- e))"

text \<open>The number of binary digits of a positive integer.\<close>

function bitLength :: "int \<Rightarrow> int" where
  "bitLength n = (if n \<le> 0 then 0 else 1 + bitLength (n div 2))"
  by auto
termination by (relation "measure nat") auto

declare bitLength.simps [simp del]

text \<open>The binary exponent of a positive rational: \<open>pow2 (exponent x) \<le> x < pow2 (exponent x + 1)\<close>.\<close>

definition exponent :: "rat \<Rightarrow> int" where
  "exponent x =
     (let (p, q) = quotient_of x;
          d = bitLength p - bitLength q
      in if pow2 d \<le> x then d else d - 1)"

definition roundEven :: "rat \<Rightarrow> int" where
  "roundEven y =
     (let f = \<lfloor>y\<rfloor>; r = y - of_int f
      in if r < 1 / 2 then f else if 1 / 2 < r then f + 1 else if even f then f else f + 1)"

definition float64 :: "rat \<Rightarrow> rat" where
  "float64 x =
     (if x = 0 then 0
      else let a = \<bar>x\<bar>; u = pow2 (exponent a - 52); m = of_int (roundEven (a / u)) * u
           in if x < 0 then - m else m)"

text \<open>\<open>Duration.Seconds\<close>; Go's \<open>/\<close> and \<open>%\<close> on integers truncate toward zero.\<close>

definition Seconds :: "int \<Rightarrow> rat" where
  "Seconds d =
     (let sec = (if 0 \<le> d then d div 1000000000 else - ((- d) div 1000000000));
          nsec = d - sec * 1000000000
      in float64 (float64 (of_int sec) + float64 (float64 (of_int nsec) / 1000000000)))"

text \<open>\<open>int64(ctx.Timeout.Seconds())\<close>. For a duration of whole seconds this is the number of
  seconds; a fraction of a second is dropped unless the sum has rounded up to the next
  whole number, which happens from \<open>2 ^ 24\<close> seconds on.\<close>

definition durationSeconds :: "int \<Rightarrow> int" where
  "durationSeconds d = truncate_rat (Seconds d)"

definition isPathSource :: "'q Context \<Rightarrow> bool" where
  "isPathSource ctx = (case ScriptSource ctx of None \<Rightarrow> False | Some s \<Rightarrow> src_Type s = SourcePath)"

definition buildEnvVars :: "'q Context \<Rightarrow> EnvVar list" where
  "buildEnvVars ctx =
     map (\<lambda>(k, v). \<lparr> ev_Name = k, ev_Value = v, ev_ValueFrom = None \<rparr>) (Env ctx)
     @ List.map_filter (\<lambda>(name, r).
         if skr_SecretName r = [] \<or> skr_Key r = [] then None
         else Some \<lparr> ev_Name = name, ev_Value = [],
                     ev_ValueFrom = Some (SecretKeySelector (skr_SecretName r) (skr_Key r)
                                            (Some (skr_Optional r))) \<rparr>) (EnvFromSecret ctx)
     @ List.map_filter (\<lambda>(name, r).
         if ckr_ConfigMapName r = [] \<or> ckr_Key r = [] then None
         else Some \<lparr> ev_Name = name, ev_Value = [],
                     ev_ValueFrom = Some (ConfigMapKeySelector (ckr_ConfigMapName r) (ckr_Key r)
                                            (Some (ckr_Optional r))) \<rparr>) (EnvFromConfigMap ctx)"

definition buildEnvFrom :: "'q Context \<Rightarrow> EnvFromSource list" where
  "buildEnvFrom ctx =
     map SecretRef (filter (\<lambda>name. name \<noteq> []) (SecretEnvAll ctx))
     @ map ConfigMapRef (filter (\<lambda>name. name \<noteq> []) (ConfigMapEnvAll ctx))"

definition ApprovedScriptsConfigMap :: string where
  "ApprovedScriptsConfigMap = ''approved-scripts''"

definition ScriptRegistryConfigMap :: string where
  "ScriptRegistryConfigMap = ''script-registry''"

definition buildVolumes :: "'q Lib \<Rightarrow> 'q Context \<Rightarrow> Volume list" where
  "buildVolumes L ctx =
     (let ephemeralLimit =
            (case res_Limits (Resources ctx) ResourceEphemeralStorage of
               None \<Rightarrow> ''1Gi'' | Some q \<Rightarrow> QuantityString L q)
      in [ \<lparr> vol_Name = ''workspace'', vol_Source = EmptyDir ephemeralLimit \<rparr>,
           \<lparr> vol_Name = ''tmp'', vol_Source = EmptyDir ''100Mi'' \<rparr> ]
         @ (if isPathSource ctx
            then [ \<lparr> vol_Name = ''scripts'',
                     vol_Source = ConfigMapVolumeSource ApprovedScriptsConfigMap None [] \<rparr> ]
            else [])
         @ map (\<lambda>(i, v). \<lparr> vol_Name = ''secret-'' @ showNat i,
                            vol_Source = SecretVolumeSource (sv_SecretName v) (Some (sv_Optional v))
                                           (sv_Items v) \<rparr>)
             (enumerate 0 (VolumesFromSecret ctx))
         @ map (\<lambda>(i, v). \<lparr> vol_Name = ''configmap-'' @ showNat i,
                            vol_Source = ConfigMapVolumeSource (cv_ConfigMapName v)
                                           (Some (cv_Optional v)) (cv_Items v) \<rparr>)
             (enumerate 0 (VolumesFromConfigMap ctx)))"

definition buildVolumeMounts :: "'q Context \<Rightarrow> VolumeMount list" where
  "buildVolumeMounts ctx =
     [ \<lparr> vm_Name = ''workspace'', vm_MountPath = ''/workspace'', vm_ReadOnly = False \<rparr>,
       \<lparr> vm_Name = ''tmp'', vm_MountPath = ''/tmp'', vm_ReadOnly = False \<rparr> ]
     @ (if isPathSource ctx
        then [ \<lparr> vm_Name = ''scripts'', vm_MountPath = ''/scripts'', vm_ReadOnly = True \<rparr> ]
        else [])
     @ map (\<lambda>(i, v). \<lparr> vm_Name = ''secret-'' @ showNat i, vm_MountPath = sv_MountPath v,
                        vm_ReadOnly = True \<rparr>)
         (enumerate 0 (VolumesFromSecret ctx))
     @ map (\<lambda>(i, v). \<lparr> vm_Name = ''configmap-'' @ showNat i, vm_MountPath = cv_MountPath v,
                        vm_ReadOnly = True \<rparr>)
         (enumerate 0 (VolumesFromConfigMap ctx))"

definition buildContainer :: "'q Lib \<Rightarrow> Config \<Rightarrow> 'q Context \<Rightarrow> 'q Container" where
  "buildContainer L cfg ctx =
     (let secCfg = Security cfg
      in \<lparr> c_Name = ''script'',
           c_Image = ctx_Image ctx,
           c_ImagePullPolicy = ImagePullPolicy ctx,
           c_WorkingDir = WorkingDir ctx,
           c_Env = buildEnvVars ctx,
           c_EnvFrom = buildEnvFrom ctx,
           c_SecurityContext = Some
             \<lparr> sc_AllowPrivilegeEscalation = Some False,
               sc_ReadOnlyRootFilesystem = Some (ReadOnlyRootFilesystem secCfg),
               sc_RunAsNonRoot = Some (RunAsNonRoot secCfg),
               sc_RunAsUser = Some (RunAsUser secCfg),
               sc_CapabilitiesDrop = [''ALL''] \<rparr>,
           c_Resources = Resources ctx,
           c_VolumeMounts = buildVolumeMounts ctx,
           c_Stdin = (Stdin ctx \<noteq> []),
           c_StdinOnce = (Stdin ctx \<noteq> []),
           c_Command =
             (case ScriptSource ctx of
                None \<Rightarrow> [Interpreter ctx, ''-c'', Script ctx]
              | Some s \<Rightarrow>
                  if src_Type s = SourcePath then [Interpreter ctx, src_Path s]
                  else [Interpreter ctx, ''-c'', Script ctx]),
           c_Args = Args ctx \<rparr>)"

text \<open>\<open>JobBuilder.Build\<close>. \<open>now\<close> is \<open>metav1.Now().Unix()\<close>, read only when the execution id is
  empty. The error result of the source is always nil, so the model returns the job.\<close>

definition Build :: "'q Lib \<Rightarrow> Config \<Rightarrow> int \<Rightarrow> 'q Context \<Rightarrow> 'q Job" where
  "Build L cfg now ctx =
     (let jobName0 = ''script-exec-'' @ ExecutionID ctx;
          jobName = (if jobName0 = ''script-exec-'' then ''script-exec-'' @ showInt now else jobName0);
          secCfg = Security cfg;
          k8sCfg = Kubernetes cfg
      in \<lparr> job_Name = jobName,
           job_Namespace = Namespace k8sCfg,
           job_Labels =
             map_of [ (''executor'', ''script''),
                      (''execution-id'', ExecutionID ctx),
                      (''runbook-id'', RunbookID ctx),
                      (''user'', sanitizeLabel (User ctx)),
                      (''managed-by'', ''opscontrolroom'') ]
             ++ map_of (Labels ctx),
           job_Annotations =
             map_of [ (''script-hash'', ScriptHash ctx),
                      (''execution-id'', ExecutionID ctx),
                      (''runbook-id'', RunbookID ctx),
                      (''user'', User ctx),
                      (''image'', ctx_Image ctx),
                      (''created-by'', ''script-executor'') ]
             ++ map_of (Annotations ctx),
           spec_BackoffLimit = Some (BackoffLimit ctx),
           spec_TTLSecondsAfterFinished = Some (TTLSecondsAfterFinished ctx),
           spec_ActiveDeadlineSeconds = Some (durationSeconds (Timeout ctx)),
           tmpl_Labels = map_of [ (''executor'', ''script''), (''execution-id'', ExecutionID ctx) ],
           tmpl_Annotations = map_of (Annotations ctx),
           pod_RestartPolicy = ''Never'',
           pod_ServiceAccountName = ctx_ServiceAccount ctx,
           pod_SecurityContext = Some
             \<lparr> psc_RunAsNonRoot = Some (RunAsNonRoot secCfg),
               psc_RunAsUser = Some (RunAsUser secCfg),
               psc_FSGroup = Some (FSGroup secCfg),
               psc_SeccompProfileType = ''RuntimeDefault'' \<rparr>,
           pod_NodeSelector = map_of (NodeSelector ctx),
           pod_Tolerations = Tolerations ctx,
           pod_Affinity = ctx_Affinity ctx,
           pod_PriorityClassName = PriorityClassName ctx,
           pod_Containers = [buildContainer L cfg ctx],
           pod_Volumes = buildVolumes L ctx,
           pod_ImagePullSecrets = (if ImagePullSecret ctx \<noteq> [] then [ImagePullSecret ctx] else []) \<rparr>)"

section \<open>The script validator (package security)\<close>

record ScriptValidator =
  blockedCommands :: "string list"
  allowedCommands :: "string list"
  maxSize :: int
  maxLines :: int

definition NewScriptValidator :: "string list \<Rightarrow> string list \<Rightarrow> int \<Rightarrow> int \<Rightarrow> ScriptValidator" where
  "NewScriptValidator blocked allowed size0 lines0 =
     \<lparr> blockedCommands = blocked,
       allowedCommands = allowed,
       maxSize = (if size0 \<le> 0 then 524288 else size0),
       maxLines = (if lines0 \<le> 0 then 1000 else lines0) \<rparr>"

text \<open>Splitting at the elements that satisfy \<open>p\<close>: \<open>strings.Split(s, "\n")\<close> is
  \<open>splitWhen\<close> at the newline byte. The result is never empty; the empty string gives one
  empty piece.\<close>

fun splitWhen :: "('a \<Rightarrow> bool) \<Rightarrow> 'a list \<Rightarrow> 'a list list" where
  "splitWhen p [] = [[]]"
| "splitWhen p (x # xs) =
     (if p x then [] # splitWhen p xs
      else (case splitWhen p xs of [] \<Rightarrow> [[x]] | l # ls \<Rightarrow> (x # l) # ls))"

definition newline :: char where
  "newline = CHR 0x0A"

definition splitLines :: "string \<Rightarrow> string list" where
  "splitLines s = splitWhen (\<lambda>c. c = newline) s"

text \<open>
  White space as \<open>strings.TrimSpace\<close> and \<open>strings.Fields\<close> see it. Both read the string as
  UTF-8 and ask \<open>unicode.IsSpace\<close> of every code point: the six ASCII characters tab,
  newline, vertical tab, form feed, carriage return and space, and U+0085, U+00A0, U+1680,
  U+2000 to U+200A, U+2028, U+2029, U+202F, U+205F and U+3000. A byte that cannot be decoded
  is the replacement character, one byte wide and no white space.

  \<open>spaceWidth s\<close> is the number of bytes of the white-space code point whose encoding
  starts \<open>s\<close>, and 0 when there is none. The first byte of each of these encodings is not a
  continuation byte and the others are, so the decoder always starts a code point at such
  a first byte and reads the encoding whole: a white-space code point sits at a position
  of the string exactly when the bytes from there on start with its encoding.
\<close>

definition byte :: "char \<Rightarrow> int" where
  "byte c = of_char c"

definition spaceWidth :: "string \<Rightarrow> nat" where
  "spaceWidth s =
     (let b = map byte (take 3 s)
      in if b = [] then 0
         else if (9 \<le> hd b \<and> hd b \<le> 13) \<or> hd b = 32 then 1
         else if take 2 b = [194, 133] \<or> take 2 b = [194, 160] then 2
         else if b = [225, 154, 128] then 3
         else if take 2 b = [226, 128] \<and> length b = 3
                 \<and> ((128 \<le> b ! 2 \<and> b ! 2 \<le> 138) \<or> b ! 2 = 168 \<or> b ! 2 = 169 \<or> b ! 2 = 175) then 3
         else if b = [226, 129, 159] then 3
         else if b = [227, 128, 128] then 3
         else 0)"

text \<open>\<open>spaceMarks 0 s\<close> tells of every byte of \<open>s\<close> whether it belongs to a white-space
  code point; the first argument counts the bytes still to come of the code point that has
  been entered.\<close>

fun spaceMarks :: "nat \<Rightarrow> string \<Rightarrow> bool list" where
  "spaceMarks k [] = []"
| "spaceMarks k (c # cs) =
     (if 0 < k then True # spaceMarks (k - 1) cs
      else if 0 < spaceWidth (c # cs) then True # spaceMarks (spaceWidth (c # cs) - 1) cs
      else False # spaceMarks 0 cs)"

definition marked :: "string \<Rightarrow> (char \<times> bool) list" where
  "marked s = zip s (spaceMarks 0 s)"

definition TrimSpace :: "string \<Rightarrow> string" where
  "TrimSpace s = map fst (rev (dropWhile snd (rev (dropWhile snd (marked s)))))"

definition Fields :: "string \<Rightarrow> string list" where
  "Fields s = filter (\<lambda>w. w \<noteq> []) (map (map fst) (splitWhen snd (marked s)))"

definition HasPrefix :: "string \<Rightarrow> string \<Rightarrow> bool" where
  "HasPrefix s pre = (take (length pre) s = pre)"

definition TrimPrefix :: "string \<Rightarrow> string \<Rightarrow> string" where
  "TrimPrefix s pre = (if HasPrefix s pre then drop (length pre) s else s)"

definition HasSuffix :: "string \<Rightarrow> string \<Rightarrow> bool" where
  "HasSuffix s suf = (length suf \<le> length s \<and> drop (length s - length suf) s = suf)"

definition TrimSuffix :: "string \<Rightarrow> string \<Rightarrow> string" where
  "TrimSuffix s suf = (if HasSuffix s suf then take (length s - length suf) s else s)"

text \<open>The lines a \<open>bufio.Scanner\<close> delivers: the pieces between newlines, without a final
  empty piece, each without one trailing carriage return. The scanner stops without a
  word at the first line that does not fit its 64 KiB buffer.\<close>

definition scanLines :: "string \<Rightarrow> string list" where
  "scanLines s =
     (let pieces = splitLines s;
          ls = (if last pieces = [] then butlast pieces else pieces)
      in map (\<lambda>l. TrimSuffix l [CHR 0x0D]) (takeWhile (\<lambda>l. int (length l) < 65536) ls))"

text \<open>The body of the loop of \<open>extractCommands\<close>: the command of one line, if it has one.\<close>

definition lineCommand :: "string \<Rightarrow> string option" where
  "lineCommand raw =
     (let line = TrimSpace raw
      in if line = [] \<or> HasPrefix line ''#'' then None
         else case Fields line of
                [] \<Rightarrow> None
              | f # fs \<Rightarrow>
                  (let cmd = TrimPrefix (TrimPrefix (TrimPrefix (TrimPrefix f ''|'') ''&&'') ''||'') '';''
                   in if cmd = ''sudo'' \<or> cmd = ''su''
                      then (case fs of [] \<Rightarrow> Some cmd | g # gs \<Rightarrow> Some g)
                      else Some cmd))"

text \<open>\<open>extractCommands\<close> collects the commands as the keys of a map and returns them in the
  map's iteration order, which Go leaves open. The model returns them without duplicates
  in a fixed order; whether \<open>Validate\<close> accepts does not depend on the order.\<close>

definition extractCommands :: "string \<Rightarrow> string list" where
  "extractCommands script = remdups (List.map_filter lineCommand (scanLines script))"

definition matchesCommand :: "string \<Rightarrow> string \<Rightarrow> bool" where
  "matchesCommand cmd pattern =
     (if cmd = pattern then True
      else if HasSuffix pattern ''*'' then HasPrefix cmd (TrimSuffix pattern ''*'')
      else False)"

text \<open>The two loops of \<open>Validate\<close> over the extracted commands.\<close>

definition checkCommands :: "ScriptValidator \<Rightarrow> string list \<Rightarrow> error option" where
  "checkCommands v commands =
     (case List.find (\<lambda>cmd. list_ex (matchesCommand cmd) (blockedCommands v)) commands of
        Some cmd \<Rightarrow> Some (BlockedCommand cmd)
      | None \<Rightarrow>
          if allowedCommands v \<noteq> []
          then (case List.find (\<lambda>cmd. \<not> list_ex (matchesCommand cmd) (allowedCommands v)) commands of
                  Some cmd \<Rightarrow> Some (NotAllowed cmd)
                | None \<Rightarrow> None)
          else None)"

text \<open>\<open>Validate\<close>; \<open>None\<close> is the nil error.\<close>

definition Validate :: "ScriptValidator \<Rightarrow> string \<Rightarrow> error option" where
  "Validate v script =
     (if int (length script) > maxSize v then Some (TooLarge (length script) (maxSize v))
      else let lines = splitLines script
           in if int (length lines) > maxLines v then Some (TooLong (length lines) (maxLines v))
              else checkCommands v (extractCommands script))"

text \<open>
  The spec's count of the \<open>newline-delimited lines\<close> of a script, written from its words
  and not from the code: every newline byte ends a line, and the bytes after the last
  newline, if there are any, are one more line. \<open>Validate\<close> counts with \<open>strings.Split\<close>
  instead (see \<open>splitLines\<close>).
\<close>

definition specLineCount :: "string \<Rightarrow> nat" where
  "specLineCount s =
     length (filter (\<lambda>c. c = newline) s) + (if s = [] \<or> last s = newline then 0 else 1)"

section \<open>The cluster\<close>

text \<open>
  What the pipeline reads and writes in the cluster. A ConfigMap or Secret is found by
  namespace and name and holds a map from keys to text. The approvals ConfigMap is kept
  apart, with its records decoded (see the approval store). A \<open>Get\<close> fails when the
  object is absent; transport failures are not modelled.
\<close>

record ApprovalRequest =
  ar_ID :: string
  ar_ExecutionID :: string
  ar_StepName :: string
  ar_RunbookID :: string
  ar_User :: string
  ar_Script :: string
  ar_ScriptHash :: string
  ar_Approvers :: "string list"
  ar_Status :: Status
  ar_ApprovedBy :: string
  ar_ApprovedAt :: int
  ar_DeniedBy :: string
  ar_DeniedAt :: int
  ar_DenialReason :: string
  ar_CreatedAt :: int
  ar_ExpiresAt :: int

datatype StoredValue = Json ApprovalRequest | Garbage string

datatype StoreCall = CallGet string | CallCreate string | CallUpdate string

record AuditEvent =
  ae_ExecutionID :: string
  ae_User :: string
  ae_RunbookID :: string
  ae_ScriptHash :: string
  ae_ScriptSource :: "SourceType option"
  ae_ScriptRef :: string
  ae_Succeeded :: bool
  ae_Duration :: int
  ae_ExitCode :: int

text \<open>\<open>StoreCalls\<close> is a ghost log: every call of the approval store's \<open>Create\<close>, \<open>Get\<close> and
  \<open>Update\<close> adds its key. \<open>AuditLog\<close> holds the events written to the audit file.\<close>

record 'q World =
  ConfigMaps :: "((string \<times> string) \<times> (string \<times> string) list) list"
  Secrets :: "((string \<times> string) \<times> (string \<times> string) list) list"
  Approvals :: "(string \<times> StoredValue) list option"
  StoreCalls :: "StoreCall list"
  Jobs :: "'q Job list"
  AuditLog :: "AuditEvent list"

definition getConfigMap :: "('q, 'z) World_scheme \<Rightarrow> string \<Rightarrow> string \<Rightarrow> (string \<times> string) list option" where
  "getConfigMap w ns name = map_of (ConfigMaps w) (ns, name)"

definition getSecret :: "('q, 'z) World_scheme \<Rightarrow> string \<Rightarrow> string \<Rightarrow> (string \<times> string) list option" where
  "getSecret w ns name = map_of (Secrets w) (ns, name)"

section \<open>The script loader (internal/script/loader.go, registry.go)\<close>

definition loadFromConfigMap :: "('q, 'z) World_scheme \<Rightarrow> string \<Rightarrow> string \<Rightarrow> string \<Rightarrow> error + string" where
  "loadFromConfigMap w ns name key =
     (case getConfigMap w ns name of
        None \<Rightarrow> Inl (ClusterError name)
      | Some data \<Rightarrow>
          (case map_of data key of None \<Rightarrow> Inl (NotFound key) | Some content \<Rightarrow> Inr content))"

definition loadFromSecret :: "('q, 'z) World_scheme \<Rightarrow> string \<Rightarrow> string \<Rightarrow> string \<Rightarrow> error + string" where
  "loadFromSecret w ns name key =
     (case getSecret w ns name of
        None \<Rightarrow> Inl (ClusterError name)
      | Some data \<Rightarrow>
          (case map_of data key of None \<Rightarrow> Inl (NotFound key) | Some content \<Rightarrow> Inr content))"

definition scriptPathExists :: "('q, 'z) World_scheme \<Rightarrow> string \<Rightarrow> string \<Rightarrow> error + bool" where
  "scriptPathExists w ns path =
     (if length path < 9 \<or> take 9 path \<noteq> ''/scripts/''
      then Inl (InvalidSource ''script_path must start with /scripts/'')
      else let key = drop 9 path
           in if key = [] then Inl (InvalidSource ''script_path must include filename after /scripts/'')
              else case getConfigMap w ns ApprovedScriptsConfigMap of
                     None \<Rightarrow> Inl (ClusterError ApprovedScriptsConfigMap)
                   | Some data \<Rightarrow> Inr (map_of data key \<noteq> None))"

definition getEntry :: "'q Lib \<Rightarrow> ('q, 'z) World_scheme \<Rightarrow> string \<Rightarrow> string \<Rightarrow> error + RegistryEntry" where
  "getEntry L w ns scriptID =
     (case getConfigMap w ns ScriptRegistryConfigMap of
        None \<Rightarrow> Inl (ClusterError ScriptRegistryConfigMap)
      | Some data \<Rightarrow>
          (case map_of data ''registry.yaml'' of
             None \<Rightarrow> Inl (RegistryInvalid ''registry.yaml not found'')
           | Some yamlContent \<Rightarrow>
               (case RegistryYaml L yamlContent of
                  None \<Rightarrow> Inl (RegistryInvalid ''parse registry.yaml'')
                | Some scripts \<Rightarrow>
                    (case map_of scripts scriptID of
                       None \<Rightarrow> Inl (NotFound scriptID)
                     | Some entry \<Rightarrow>
                         if (reg_ConfigMap entry = [] \<and> reg_Secret entry = []) \<or> reg_Key entry = []
                         then Inl (RegistryInvalid ''must have configmap or secret and key'')
                         else if reg_ConfigMap entry \<noteq> [] \<and> reg_Secret entry \<noteq> []
                         then Inl (RegistryInvalid ''has both configmap and secret'')
                         else Inr entry))))"

definition LoadByID :: "'q Lib \<Rightarrow> ('q, 'z) World_scheme \<Rightarrow> string \<Rightarrow> string \<Rightarrow> error + (string \<times> Source)" where
  "LoadByID L w ns scriptID =
     bindE (getEntry L w ns scriptID) (\<lambda>entry.
       if reg_ConfigMap entry \<noteq> []
       then bindE (loadFromConfigMap w ns (reg_ConfigMap entry) (reg_Key entry)) (\<lambda>content.
              Inr (content, \<lparr> src_Type = SourceRegistry, src_Content = content, src_Path = [],
                               src_Name = reg_ConfigMap entry, src_Key = reg_Key entry,
                               src_Namespace = ns \<rparr>))
       else if reg_Secret entry \<noteq> []
       then bindE (loadFromSecret w ns (reg_Secret entry) (reg_Key entry)) (\<lambda>content.
              Inr (content, \<lparr> src_Type = SourceRegistry, src_Content = content, src_Path = [],
                               src_Name = reg_Secret entry, src_Key = reg_Key entry,
                               src_Namespace = ns \<rparr>))
       else Inl (RegistryInvalid ''has neither configmap nor secret''))"

text \<open>The five branches of \<open>LoadScript\<close>, each the body of one \<open>if\<close> of the source, and the
  test that guards it.\<close>

definition inlineProvided :: "Struct option \<Rightarrow> bool" where
  "inlineProvided params = (getString params ''inline_script'' [] \<noteq> [])"

definition configMapProvided :: "Struct option \<Rightarrow> bool" where
  "configMapProvided params =
     (case getMap params ''script_from_configmap'' of None \<Rightarrow> False | Some fs \<Rightarrow> length fs > 0)"

definition secretProvided :: "Struct option \<Rightarrow> bool" where
  "secretProvided params =
     (case getMap params ''script_from_secret'' of None \<Rightarrow> False | Some fs \<Rightarrow> length fs > 0)"

definition pathProvided :: "Struct option \<Rightarrow> bool" where
  "pathProvided params = (getString params ''script_path'' [] \<noteq> [])"

definition idProvided :: "Struct option \<Rightarrow> bool" where
  "idProvided params = (getString params ''script_id'' [] \<noteq> [])"

definition loadInline :: "Struct option \<Rightarrow> error + (string \<times> Source)" where
  "loadInline params =
     (let inline = getString params ''inline_script'' []
      in Inr (inline, \<lparr> src_Type = SourceInline, src_Content = inline, src_Path = [],
                        src_Name = [], src_Key = [], src_Namespace = [] \<rparr>))"

definition loadConfigMapRef :: "('q, 'z) World_scheme \<Rightarrow> string \<Rightarrow> Struct option \<Rightarrow> error + (string \<times> Source)" where
  "loadConfigMapRef w namespace params =
     (let cmRef = getMap params ''script_from_configmap'';
          cmName = getString cmRef ''configmap_name'' [];
          key = getString cmRef ''key'' []
      in if cmName = [] \<or> key = []
         then Inl (InvalidSource ''script_from_configmap requires configmap_name and key'')
         else let ns = getString cmRef ''namespace'' namespace
              in case loadFromConfigMap w ns cmName key of
                   Inl err \<Rightarrow> Inl (Wrapped ''load from configmap'' err)
                 | Inr content \<Rightarrow>
                     Inr (content, \<lparr> src_Type = SourceConfigMap, src_Content = content, src_Path = [],
                                      src_Name = cmName, src_Key = key, src_Namespace = ns \<rparr>))"

definition loadSecretRef :: "('q, 'z) World_scheme \<Rightarrow> string \<Rightarrow> Struct option \<Rightarrow> error + (string \<times> Source)" where
  "loadSecretRef w namespace params =
     (let secretRef = getMap params ''script_from_secret'';
          secretName = getString secretRef ''secret_name'' [];
          key = getString secretRef ''key'' []
      in if secretName = [] \<or> key = []
         then Inl (InvalidSource ''script_from_secret requires secret_name and key'')
         else let ns = getString secretRef ''namespace'' namespace
              in case loadFromSecret w ns secretName key of
                   Inl err \<Rightarrow> Inl (Wrapped ''load from secret'' err)
                 | Inr content \<Rightarrow>
                     Inr (content, \<lparr> src_Type = SourceSecret, src_Content = content, src_Path = [],
                                      src_Name = secretName, src_Key = key, src_Namespace = ns \<rparr>))"

definition loadPath :: "('q, 'z) World_scheme \<Rightarrow> string \<Rightarrow> Struct option \<Rightarrow> error + (string \<times> Source)" where
  "loadPath w namespace params =
     (let path = getString params ''script_path'' []
      in case scriptPathExists w namespace path of
           Inl err \<Rightarrow> Inl (Wrapped ''validate script path'' err)
         | Inr found \<Rightarrow>
             if \<not> found then Inl (NotFound path)
             else Inr ([], \<lparr> src_Type = SourcePath, src_Content = [], src_Path = path,
                              src_Name = [], src_Key = [], src_Namespace = [] \<rparr>))"

definition loadRegistryID :: "'q Lib \<Rightarrow> ('q, 'z) World_scheme \<Rightarrow> string \<Rightarrow> Struct option \<Rightarrow> error + (string \<times> Source)" where
  "loadRegistryID L w namespace params =
     (case LoadByID L w namespace (getString params ''script_id'' []) of
        Inl err \<Rightarrow> Inl (Wrapped ''load by script_id'' err)
      | Inr r \<Rightarrow> Inr r)"

text \<open>The source type that the priority order selects: that of the first source
  provided, in the order of the five tests.\<close>

definition firstProvided :: "Struct option \<Rightarrow> SourceType option" where
  "firstProvided params =
     (if inlineProvided params then Some SourceInline
      else if configMapProvided params then Some SourceConfigMap
      else if secretProvided params then Some SourceSecret
      else if pathProvided params then Some SourcePath
      else if idProvided params then Some SourceRegistry
      else None)"

text \<open>\<open>Loader.LoadScript\<close>; \<open>namespace\<close> is the loader's namespace.\<close>

definition LoadScript :: "'q Lib \<Rightarrow> ('q, 'z) World_scheme \<Rightarrow> string \<Rightarrow> Struct option \<Rightarrow> error + (string \<times> Source)" where
  "LoadScript L w namespace params =
     (if inlineProvided params then loadInline params
      else if configMapProvided params then loadConfigMapRef w namespace params
      else if secretProvided params then loadSecretRef w namespace params
      else if pathProvided params then loadPath w namespace params
      else if idProvided params then loadRegistryID L w namespace params
      else Inl NoSourceProvided)"

section \<open>The approval store and checker (package approval)\<close>

text \<open>
  \<open>ConfigMapStore\<close> keeps one JSON text per key in the approvals ConfigMap. The model keeps
  the decoded record (\<open>Json\<close>); \<open>Garbage\<close> is a text that \<open>json.Unmarshal\<close> rejects. Times are
  in nanoseconds; \<open>now\<close> is \<open>time.Now()\<close>. \<open>Approvals = None\<close> is a cluster without the
  ConfigMap.
\<close>

fun upsert :: "'k \<Rightarrow> 'v \<Rightarrow> ('k \<times> 'v) list \<Rightarrow> ('k \<times> 'v) list" where
  "upsert k v [] = [(k, v)]"
| "upsert k v ((a, b) # xs) = (if a = k then (k, v) # xs else (a, b) # upsert k v xs)"

definition storeKey :: "string \<Rightarrow> string \<Rightarrow> string" where
  "storeKey executionID stepName = executionID @ ''-'' @ stepName"

definition hour :: int where
  "hour = 3600 * 1000000000"

text \<open>\<open>ConfigMapStore.Update\<close>: the key is made from the record's own fields.\<close>

definition storeUpdate :: "'q World \<Rightarrow> ApprovalRequest \<Rightarrow> error option \<times> 'q World" where
  "storeUpdate w req =
     (let k = storeKey (ar_ExecutionID req) (ar_StepName req);
          w1 = w\<lparr>StoreCalls := StoreCalls w @ [CallUpdate k]\<rparr>
      in case Approvals w of
           None \<Rightarrow> (Some (ClusterError ''approvals configmap''), w1)
         | Some data \<Rightarrow> (None, w1\<lparr>Approvals := Some (upsert k (Json req) data)\<rparr>))"

text \<open>\<open>ConfigMapStore.Get\<close>, with its lazy expiry: a pending record whose \<open>ExpiresAt\<close> has passed
  is written back as expired (the result of that \<open>Update\<close> is dropped) and returned so.\<close>

definition storeGet :: "'q World \<Rightarrow> int \<Rightarrow> string \<Rightarrow> string \<Rightarrow> (error + ApprovalRequest) \<times> 'q World" where
  "storeGet w now executionID stepName =
     (let k = storeKey executionID stepName;
          w1 = w\<lparr>StoreCalls := StoreCalls w @ [CallGet k]\<rparr>
      in case Approvals w of
           None \<Rightarrow> (Inl (ClusterError ''approvals configmap''), w1)
         | Some data \<Rightarrow>
             (case map_of data k of
                None \<Rightarrow> (Inl ApprovalNotFound, w1)
              | Some (Garbage t) \<Rightarrow> (Inl DecodeError, w1)
              | Some (Json req) \<Rightarrow>
                  if ar_Status req = StatusPending \<and> now > ar_ExpiresAt req
                  then (let req1 = req\<lparr>ar_Status := StatusExpired\<rparr>
                        in (Inr req1, snd (storeUpdate w1 req1)))
                  else (Inr req, w1)))"

text \<open>\<open>ConfigMapStore.Create\<close>; \<open>getOrCreate\<close> makes the ConfigMap when it is absent.\<close>

definition storeCreate :: "'q World \<Rightarrow> int \<Rightarrow> ApprovalRequest \<Rightarrow> error option \<times> 'q World" where
  "storeCreate w now req =
     (let k = storeKey (ar_ExecutionID req) (ar_StepName req);
          req1 = req\<lparr>ar_ID := k @ ''-'' @ showInt now,
                     ar_Status := StatusPending,
                     ar_CreatedAt := now,
                     ar_ExpiresAt := now + 24 * hour\<rparr>;
          data = (case Approvals w of None \<Rightarrow> [] | Some d \<Rightarrow> d)
      in (None, w\<lparr>StoreCalls := StoreCalls w @ [CallCreate k],
                   Approvals := Some (upsert k (Json req1) data)\<rparr>))"

record Checker =
  defaultApprovers :: "string list"

definition NewChecker :: "string list \<Rightarrow> Checker" where
  "NewChecker approvers = \<lparr> defaultApprovers = approvers \<rparr>"

definition CreateRequest ::
  "Checker \<Rightarrow> 'q World \<Rightarrow> int \<Rightarrow> string \<Rightarrow> string \<Rightarrow> string \<Rightarrow> string \<Rightarrow> string \<Rightarrow> string \<Rightarrow> string list \<Rightarrow>
   error option \<times> 'q World" where
  "CreateRequest c w now executionID stepName runbookID user script scriptHash approvers =
     storeCreate w now
       \<lparr> ar_ID = [], ar_ExecutionID = executionID, ar_StepName = stepName, ar_RunbookID = runbookID,
         ar_User = user, ar_Script = script, ar_ScriptHash = scriptHash,
         ar_Approvers = (if approvers = [] then defaultApprovers c else approvers),
         ar_Status = StatusOther [], ar_ApprovedBy = [], ar_ApprovedAt = 0, ar_DeniedBy = [],
         ar_DeniedAt = 0, ar_DenialReason = [], ar_CreatedAt = 0, ar_ExpiresAt = 0 \<rparr>"

text \<open>\<open>Checker.Check\<close>; its error result is always nil.\<close>

definition Check :: "'q World \<Rightarrow> int \<Rightarrow> string \<Rightarrow> string \<Rightarrow> Status \<times> 'q World" where
  "Check w now executionID stepName =
     (case storeGet w now executionID stepName of
        (Inl err, w1) \<Rightarrow> (StatusPending, w1)
      | (Inr req, w1) \<Rightarrow>
          (case ar_Status req of
             StatusApproved \<Rightarrow> (StatusApproved, w1)
           | StatusDenied \<Rightarrow> (StatusDenied, w1)
           | StatusExpired \<Rightarrow> (StatusPending, w1)
           | StatusPending \<Rightarrow> (StatusPending, w1)
           | StatusOther t \<Rightarrow> (StatusPending, w1)))"

definition contains :: "'q Lib \<Rightarrow> string list \<Rightarrow> string \<Rightarrow> bool" where
  "contains L xs s = list_ex (\<lambda>v. EqualFold L v s) xs"

text \<open>\<open>Checker.Approve\<close> and \<open>Checker.Deny\<close>; \<open>None\<close> is the nil error.\<close>

definition Approve :: "'q Lib \<Rightarrow> 'q World \<Rightarrow> int \<Rightarrow> string \<Rightarrow> string \<Rightarrow> string \<Rightarrow> error option \<times> 'q World" where
  "Approve L w now executionID stepName approver =
     (case storeGet w now executionID stepName of
        (Inl err, w1) \<Rightarrow> (Some err, w1)
      | (Inr req, w1) \<Rightarrow>
          if ar_Status req \<noteq> StatusPending then (Some (NotPending (ar_Status req)), w1)
          else if \<not> contains L (ar_Approvers req) approver then (Some (Unauthorized approver), w1)
          else storeUpdate w1 (req\<lparr>ar_Status := StatusApproved, ar_ApprovedBy := approver,
                                   ar_ApprovedAt := now\<rparr>))"

definition Deny :: "'q Lib \<Rightarrow> 'q World \<Rightarrow> int \<Rightarrow> string \<Rightarrow> string \<Rightarrow> string \<Rightarrow> string \<Rightarrow> error option \<times> 'q World" where
  "Deny L w now executionID stepName denier reason =
     (case storeGet w now executionID stepName of
        (Inl err, w1) \<Rightarrow> (Some err, w1)
      | (Inr req, w1) \<Rightarrow>
          if ar_Status req \<noteq> StatusPending then (Some (NotPending (ar_Status req)), w1)
          else if \<not> contains L (ar_Approvers req) denier then (Some (Unauthorized denier), w1)
          else storeUpdate w1 (req\<lparr>ar_Status := StatusDenied, ar_DeniedBy := denier,
                                   ar_DeniedAt := now, ar_DenialReason := reason\<rparr>))"

text \<open>The record the approvals ConfigMap holds for an execution and a step, when it holds
  one that decodes.\<close>

definition storedRecord :: "'q World \<Rightarrow> string \<Rightarrow> string \<Rightarrow> ApprovalRequest option" where
  "storedRecord w executionID stepName =
     (case Approvals w of
        None \<Rightarrow> None
      | Some data \<Rightarrow>
          (case map_of data (storeKey executionID stepName) of
             Some (Json r) \<Rightarrow> Some r
           | _ \<Rightarrow> None))"

section \<open>Image resolution and validation (package image)\<close>

record ResolverDefaults =
  rd_Image :: string
  rd_PullSecret :: string
  rd_PullPolicy :: string

record Resolver =
  catalogNamespace :: string
  catalogName :: string
  defaults :: ResolverDefaults

definition NewResolver :: "string \<Rightarrow> string \<Rightarrow> ResolverDefaults \<Rightarrow> Resolver" where
  "NewResolver ns name d =
     \<lparr> catalogNamespace = ns, catalogName = name,
       defaults = (if rd_PullPolicy d = [] then d\<lparr>rd_PullPolicy := ''IfNotPresent''\<rparr> else d) \<rparr>"

record ResolvedImage =
  ri_Image :: string
  ri_PullSecret :: string
  ri_PullPolicy :: string

text \<open>\<open>Catalog.Load\<close> followed by \<open>Catalog.Get\<close>.\<close>

definition catalogLookup :: "'q Lib \<Rightarrow> ('q, 'z) World_scheme \<Rightarrow> Resolver \<Rightarrow> string \<Rightarrow> error + CatalogEntry" where
  "catalogLookup L w r imageRef =
     (case getConfigMap w (catalogNamespace r) (catalogName r) of
        None \<Rightarrow> Inl (Wrapped ''load image catalog'' (ClusterError (catalogName r)))
      | Some data \<Rightarrow>
          (case map_of data ''catalog.yaml'' of
             None \<Rightarrow> Inl (Wrapped ''load image catalog'' (NotFound ''catalog.yaml''))
           | Some yamlContent \<Rightarrow>
               (case CatalogYaml L yamlContent of
                  None \<Rightarrow> Inl (Wrapped ''load image catalog'' (NotFound ''parse catalog.yaml''))
                | Some entries \<Rightarrow>
                    (case map_of entries imageRef of
                       None \<Rightarrow> Inl (UnknownImageRef imageRef)
                     | Some entry \<Rightarrow> Inr entry))))"

definition Resolve ::
  "'q Lib \<Rightarrow> ('q, 'z) World_scheme \<Rightarrow> Resolver \<Rightarrow> string \<Rightarrow> string \<Rightarrow> string \<Rightarrow> string \<Rightarrow> error + ResolvedImage" where
  "Resolve L w r img imageRef imagePullPolicy imagePullSecret =
     bindE
       (if img \<noteq> [] then Inr (img, [])
        else if imageRef \<noteq> []
        then bindE (catalogLookup L w r imageRef) (\<lambda>entry. Inr (cat_Image entry, cat_PullSecret entry))
        else Inr (rd_Image (defaults r), []))
       (\<lambda>(resolvedImage, catalogSecret).
          Inr \<lparr> ri_Image = resolvedImage,
                ri_PullSecret =
                  (if catalogSecret \<noteq> [] then catalogSecret
                   else if imagePullSecret \<noteq> [] then imagePullSecret
                   else rd_PullSecret (defaults r)),
                ri_PullPolicy =
                  (if imagePullPolicy \<noteq> [] then imagePullPolicy else rd_PullPolicy (defaults r)) \<rparr>)"

record ImageValidator =
  approved :: "string list"
  blocked :: "string list"

definition imageMatches :: "string \<Rightarrow> string \<Rightarrow> bool" where
  "imageMatches img pattern0 =
     (let pattern = TrimSpace pattern0
      in if pattern = [] then False
         else if HasSuffix pattern ''*'' then HasPrefix img (TrimSuffix pattern ''*'')
         else img = pattern)"

definition ValidateImage :: "ImageValidator \<Rightarrow> string \<Rightarrow> error option" where
  "ValidateImage v img =
     (if approved v = [] \<and> blocked v = [] then None
      else case List.find (imageMatches img) (blocked v) of
             Some pattern \<Rightarrow> Some (ImageBlocked img pattern)
           | None \<Rightarrow>
               if approved v \<noteq> []
               then (if list_ex (imageMatches img) (approved v) then None
                     else Some (ImageNotApproved img))
               else None)"

section \<open>The manager and Execute (internal/execution/types.go)\<close>

record Manager =
  config :: Config
  namespace :: string
  resolver :: Resolver
  validator :: ImageValidator
  scriptVal :: ScriptValidator
  approval :: "Checker option"
  auditLog :: bool

text \<open>\<open>NewManagerWithClient\<close>. \<open>auditOpens\<close> says whether \<open>audit.NewLogger\<close> could open its
  file; when it could not, the logger stays nil. The approval checker exists only when
  the configuration enables approvals.\<close>

definition NewManagerWithClient :: "Config \<Rightarrow> bool \<Rightarrow> Manager" where
  "NewManagerWithClient cfg auditOpens =
     (let ns = Namespace (Kubernetes cfg)
      in \<lparr> config = cfg,
           namespace = ns,
           resolver = NewResolver ns (CatalogConfigMapName (Image cfg))
                        \<lparr> rd_Image = DefaultImage (Image cfg),
                          rd_PullSecret = DefaultImagePullSecret (Image cfg),
                          rd_PullPolicy = DefaultImagePullPolicy (Image cfg) \<rparr>,
           validator = \<lparr> approved = ApprovedImages (Image cfg), blocked = BlockedImages (Image cfg) \<rparr>,
           scriptVal = NewScriptValidator (BlockedCommands (Security cfg)) []
                         (MaxScriptSize (Security cfg)) (MaxScriptLines (Security cfg)),
           approval = (if ApprovalEnabled (Approval cfg)
                       then Some (NewChecker (DefaultApprovers (Approval cfg))) else None),
           auditLog = (AuditEnabled (Audit cfg) \<and> auditOpens) \<rparr>)"

text \<open>\<open>NewManager\<close> first replaces an empty namespace by \<open>default\<close>. Building the cluster
  client, which can fail, is outside the model.\<close>

definition NewManager :: "Config \<Rightarrow> bool \<Rightarrow> Manager" where
  "NewManager cfg auditOpens =
     NewManagerWithClient
       (if Namespace (Kubernetes cfg) = []
        then cfg\<lparr>Kubernetes := (Kubernetes cfg)\<lparr>Namespace := ''default''\<rparr>\<rparr> else cfg)
       auditOpens"

record ExecuteRequest =
  rq_Parameters :: "Struct option"
  rq_Context :: "ExecutionContext option"
  rq_Timeout :: "int option"

record Result =
  r_ExitCode :: int
  r_Stdout :: string
  r_Stderr :: string
  r_Duration :: int
  r_JobName :: string
  r_PodName :: string
  r_Succeeded :: bool

datatype ResponseStatus = STATUS_SUCCEEDED | STATUS_FAILED | STATUS_PENDING

record Output =
  out_exit_code :: int
  out_stdout :: string
  out_stderr :: string
  out_duration :: int
  out_script_hash :: string
  out_job_name :: string
  out_pod_name :: string

text \<open>The response without its \<open>Duration\<close>, which is a reading of the wall clock.\<close>

record Response =
  resp_Status :: ResponseStatus
  resp_Output :: "Output option"
  resp_Error :: "error option"

definition errorResponse :: "error \<Rightarrow> Response" where
  "errorResponse err = \<lparr> resp_Status = STATUS_FAILED, resp_Output = None, resp_Error = Some err \<rparr>"

text \<open>\<open>buildOutput\<close>: \<open>structpb.NewStruct\<close> refuses a string that is not valid UTF-8, and the
  source drops that error, leaving a nil output.\<close>

definition buildOutput :: "'q Lib \<Rightarrow> 'q Context \<Rightarrow> Result \<Rightarrow> Output option" where
  "buildOutput L ctx result =
     (if list_all (ValidUTF8 L)
           [r_Stdout result, r_Stderr result, ScriptHash ctx, r_JobName result, r_PodName result]
      then Some \<lparr> out_exit_code = r_ExitCode result,
                  out_stdout = r_Stdout result,
                  out_stderr = r_Stderr result,
                  out_duration = r_Duration result,
                  out_script_hash = ScriptHash ctx,
                  out_job_name = r_JobName result,
                  out_pod_name = r_PodName result \<rparr>
      else None)"

definition LogExecution ::
  "'q World \<Rightarrow> string \<Rightarrow> string \<Rightarrow> string \<Rightarrow> string \<Rightarrow> Source option \<Rightarrow> bool \<Rightarrow> int \<Rightarrow> int \<Rightarrow> 'q World" where
  "LogExecution w executionID user runbookID scriptHash source succeeded duration exitCode =
     w\<lparr>AuditLog := AuditLog w @
         [\<lparr> ae_ExecutionID = executionID, ae_User = user, ae_RunbookID = runbookID,
            ae_ScriptHash = scriptHash,
            ae_ScriptSource = map_option src_Type source,
            ae_ScriptRef = (case source of
                              None \<Rightarrow> []
                            | Some s \<Rightarrow> if src_Name s \<noteq> [] then src_Name s @ ''/'' @ src_Key s else []),
            ae_Succeeded = succeeded, ae_Duration = duration, ae_ExitCode = exitCode \<rparr>]\<rparr>"

text \<open>Submitting a job: the cluster refuses a second job of the same name in the
  namespace.\<close>

definition createJob :: "'q World \<Rightarrow> 'q Job \<Rightarrow> (error + 'q Job) \<times> 'q World" where
  "createJob w job =
     (if list_ex (\<lambda>j. job_Name j = job_Name job \<and> job_Namespace j = job_Namespace job) (Jobs w)
      then (Inl (SubmitFailed (job_Name job)), w)
      else (Inr job, w\<lparr>Jobs := Jobs w @ [job]\<rparr>))"

text \<open>Steps 1 to 5 of \<open>Execute\<close>: load, validate, hash, resolve and validate the image. They
  read the cluster and change nothing.\<close>

definition prepare ::
  "'q Lib \<Rightarrow> Manager \<Rightarrow> 'q World \<Rightarrow> Struct option \<Rightarrow> error + (string \<times> Source \<times> string \<times> ResolvedImage)" where
  "prepare L m w params =
     bindE (LoadScript L w (namespace m) params) (\<lambda>(scriptContent, source).
     bindE (if src_Type source \<noteq> SourcePath \<and> scriptContent \<noteq> []
            then (case Validate (scriptVal m) scriptContent of
                    Some err \<Rightarrow> Inl (Wrapped ''script validation'' err)
                  | None \<Rightarrow> Inr ())
            else Inr ()) (\<lambda>u.
     let scriptHash = (if scriptContent \<noteq> [] then Sha256Hex L scriptContent else [])
     in
     bindE (case Resolve L w (resolver m) (getString params ''image'' []) (getString params ''image_ref'' [])
                   (getString params ''image_pull_policy'' []) (getString params ''image_pull_secret'' []) of
              Inl err \<Rightarrow> Inl (Wrapped ''resolve image'' err)
            | Inr r \<Rightarrow> Inr r) (\<lambda>resolved.
     case ValidateImage (validator m) (ri_Image resolved) of
       Some err \<Rightarrow> Inl (Wrapped ''image validation'' err)
     | None \<Rightarrow> Inr (scriptContent, source, scriptHash, resolved))))"

text \<open>Step 6: the approval gate. \<open>Inl\<close> is the response that ends the request, \<open>Inr ()\<close> lets
  it go on to the workload.\<close>

definition approvalGate ::
  "Manager \<Rightarrow> 'q World \<Rightarrow> int \<Rightarrow> Struct option \<Rightarrow> string \<Rightarrow> string \<Rightarrow> string \<Rightarrow> string \<Rightarrow> string \<Rightarrow>
   (Response + unit) \<times> 'q World" where
  "approvalGate m w now params executionID runbookID user scriptContent scriptHash =
     (case approval m of
        None \<Rightarrow> (Inr (), w)
      | Some checker \<Rightarrow>
          if \<not> getBool params ''approval_required'' then (Inr (), w)
          else
            let approvers0 = sliceOrEmpty (getStringSlice params ''approvers'');
                approvers = (if length approvers0 = 0 then DefaultApprovers (Approval (config m))
                             else approvers0);
                stepName = getString params ''step_name'' ''default''
            in case Check w now executionID stepName of
                 (status, w1) \<Rightarrow>
                   if status = StatusPending
                   then (case CreateRequest checker w1 now executionID stepName runbookID user
                                 scriptContent scriptHash approvers of
                           (Some err, w2) \<Rightarrow> (Inl (errorResponse err), w2)
                         | (None, w2) \<Rightarrow>
                             (Inl \<lparr> resp_Status = STATUS_PENDING, resp_Output = None,
                                    resp_Error = Some AwaitingApproval \<rparr>, w2))
                   else if status = StatusDenied then (Inl (errorResponse Denied), w1)
                   else (Inr (), w1))"

text \<open>Steps 7 to 11: build the context and the job, submit it, wait, write the audit
  event and answer. \<open>wait\<close> is \<open>Monitor.Wait\<close>, what the cluster reports for the job within
  the given time; \<open>clock\<close> is the \<open>metav1.Now().Unix()\<close> the builder may read.\<close>

definition runJob ::
  "('q::linorder) Lib \<Rightarrow> Manager \<Rightarrow> ('q Job \<Rightarrow> int \<Rightarrow> error + Result) \<Rightarrow> int \<Rightarrow> 'q World \<Rightarrow> ExecuteRequest \<Rightarrow>
   Struct option \<Rightarrow> ExecutionContext \<Rightarrow> string \<Rightarrow> string \<Rightarrow> Source \<Rightarrow> string \<Rightarrow> ResolvedImage \<Rightarrow>
   Response \<times> 'q World" where
  "runJob L m wait clock w req params execCtx executionID scriptContent source scriptHash resolved =
     (case BuildContext L params (Some execCtx) scriptContent (Some source) scriptHash
             (ri_Image resolved) (ri_PullPolicy resolved) (ri_PullSecret resolved) (config m) of
        Inl err \<Rightarrow> (errorResponse err, w)
      | Inr ctx0 \<Rightarrow>
          let execContext = ctx0\<lparr>ExecutionID := executionID, RunbookID := RunbookId execCtx,
                                 User := ec_User execCtx\<rparr>;
              job = Build L (config m) clock execContext
          in case createJob w job of
               (Inl err, w1) \<Rightarrow> (errorResponse (Wrapped ''create job'' err), w1)
             | (Inr created, w1) \<Rightarrow>
                 let timeout = (case rq_Timeout req of
                                  None \<Rightarrow> Timeout execContext
                                | Some t \<Rightarrow> if t > 0 then t else Timeout execContext)
                 in case wait created (timeout + 30 * 1000000000) of
                      Inl err \<Rightarrow> (errorResponse (Wrapped ''wait for job'' err), w1)
                    | Inr result \<Rightarrow>
                        let w2 = (if auditLog m
                                  then LogExecution w1 executionID (ec_User execCtx) (RunbookId execCtx)
                                         scriptHash (Some source) (r_Succeeded result)
                                         (r_Duration result) (r_ExitCode result)
                                  else w1);
                            output = buildOutput L execContext result
                        in if r_Succeeded result
                           then (\<lparr> resp_Status = STATUS_SUCCEEDED, resp_Output = output,
                                   resp_Error = None \<rparr>, w2)
                           else (\<lparr> resp_Status = STATUS_FAILED, resp_Output = output,
                                   resp_Error = Some (ExitCode (r_ExitCode result)) \<rparr>, w2))"

text \<open>The opening lines of \<open>Execute\<close>: nil parameters are an empty bag, a nil context is an
  empty context, and an empty execution id is replaced by \<open>exec-\<close> and the clock's
  nanoseconds.\<close>

definition requestParams :: "ExecuteRequest \<Rightarrow> Struct option" where
  "requestParams req = (case rq_Parameters req of None \<Rightarrow> Some [] | Some p \<Rightarrow> Some p)"

definition requestContext :: "ExecuteRequest \<Rightarrow> ExecutionContext" where
  "requestContext req =
     (case rq_Context req of
        None \<Rightarrow> \<lparr> ExecutionId = [], RunbookId = [], ec_User = [] \<rparr>
      | Some c \<Rightarrow> c)"

definition requestExecutionID :: "int \<Rightarrow> ExecuteRequest \<Rightarrow> string" where
  "requestExecutionID now req =
     (if ExecutionId (requestContext req) = [] then ''exec-'' @ showInt now
      else ExecutionId (requestContext req))"

text \<open>\<open>Manager.Execute\<close>. \<open>now\<close> is \<open>time.Now()\<close> in nanoseconds.\<close>

definition Execute ::
  "('q::linorder) Lib \<Rightarrow> Manager \<Rightarrow> ('q Job \<Rightarrow> int \<Rightarrow> error + Result) \<Rightarrow> int \<Rightarrow> int \<Rightarrow> 'q World \<Rightarrow> ExecuteRequest \<Rightarrow>
   Response \<times> 'q World" where
  "Execute L m wait now clock w req =
     (let params = requestParams req;
          execCtx = requestContext req;
          executionID = requestExecutionID now req
      in case prepare L m w params of
           Inl err \<Rightarrow> (errorResponse err, w)
         | Inr (scriptContent, source, scriptHash, resolved) \<Rightarrow>
             (case approvalGate m w now params executionID (RunbookId execCtx) (ec_User execCtx)
                     scriptContent scriptHash of
                (Inl resp, w1) \<Rightarrow> (resp, w1)
              | (Inr u, w1) \<Rightarrow>
                  runJob L m wait clock w1 req params execCtx executionID scriptContent source
                    scriptHash resolved))"

section \<open>Manifests up to the order of map entries\<close>

text \<open>
  Two association lists stand for the same Go map when they hold the same entries, each
  key once, in any order: the order is the one \<open>range\<close> happened to take. Two contexts are
  the same when they agree on every field but these orders, and two manifests are the
  same when they agree on every field but the order of the environment variables, which
  the builder lists in map order.
\<close>

definition sameMap :: "(string \<times> 'v) list \<Rightarrow> (string \<times> 'v) list \<Rightarrow> bool" where
  "sameMap xs ys = (distinct (map fst xs) \<and> mset xs = mset ys)"

definition withoutMaps :: "'q Context \<Rightarrow> 'q Context" where
  "withoutMaps c = c\<lparr>Env := [], EnvFromSecret := [], EnvFromConfigMap := [], NodeSelector := [],
                      Labels := [], Annotations := []\<rparr>"

definition sameContext :: "'q Context \<Rightarrow> 'q Context \<Rightarrow> bool" where
  "sameContext c1 c2 =
     (withoutMaps c1 = withoutMaps c2
      \<and> sameMap (Env c1) (Env c2)
      \<and> sameMap (EnvFromSecret c1) (EnvFromSecret c2)
      \<and> sameMap (EnvFromConfigMap c1) (EnvFromConfigMap c2)
      \<and> sameMap (NodeSelector c1) (NodeSelector c2)
      \<and> sameMap (Labels c1) (Labels c2)
      \<and> sameMap (Annotations c1) (Annotations c2))"

definition sameContainer :: "'q Container \<Rightarrow> 'q Container \<Rightarrow> bool" where
  "sameContainer c d = (c\<lparr>c_Env := []\<rparr> = d\<lparr>c_Env := []\<rparr> \<and> mset (c_Env c) = mset (c_Env d))"

definition sameManifest :: "'q Job \<Rightarrow> 'q Job \<Rightarrow> bool" where
  "sameManifest a b =
     (a\<lparr>pod_Containers := []\<rparr> = b\<lparr>pod_Containers := []\<rparr>
      \<and> list_all2 sameContainer (pod_Containers a) (pod_Containers b))"

section \<open>A concrete library instance for evaluating examples\<close>

text \<open>
  The examples below need the library functions at a few concrete strings. This instance
  reads a duration written as digits and one of the units \<open>s\<close>, \<open>m\<close>, \<open>h\<close>, and a quantity
  written as digits and one of the suffixes (none), \<open>m\<close>, \<open>Ki\<close>, \<open>Mi\<close>, \<open>Gi\<close>; on these
  strings it agrees with \<open>time.ParseDuration\<close> and \<open>resource.MustParse\<close>. A quantity is its
  value in thousandths, an integer. \<open>EqualFold\<close> folds the ASCII letters and \<open>ValidUTF8\<close>
  accepts ASCII text. The YAML readers know no document. The general theorems hold for every instance.
\<close>

definition isDigit :: "char \<Rightarrow> bool" where
  "isDigit c = (48 \<le> (of_char c :: nat) \<and> (of_char c :: nat) \<le> 57)"

definition parseNat :: "string \<Rightarrow> nat option" where
  "parseNat s =
     (if s = [] \<or> \<not> list_all isDigit s then None
      else Some (foldl (\<lambda>a c. 10 * a + (of_char c - 48)) 0 s))"

definition exampleParseDuration :: "string \<Rightarrow> int option" where
  "exampleParseDuration s =
     (let u = dropWhile isDigit s
      in case parseNat (takeWhile isDigit s) of
           None \<Rightarrow> None
         | Some n \<Rightarrow>
             if u = ''s'' then Some (int n * 1000000000)
             else if u = ''m'' then Some (int n * 60 * 1000000000)
             else if u = ''h'' then Some (int n * 3600 * 1000000000)
             else None)"

definition exampleMustParse :: "string \<Rightarrow> int option" where
  "exampleMustParse s =
     (let u = dropWhile isDigit s
      in case parseNat (takeWhile isDigit s) of
           None \<Rightarrow> None
         | Some n \<Rightarrow>
             if u = [] then Some (int n * 1000)
             else if u = ''m'' then Some (int n)
             else if u = ''Ki'' then Some (int n * 1024 * 1000)
             else if u = ''Mi'' then Some (int n * 1024 * 1024 * 1000)
             else if u = ''Gi'' then Some (int n * 1024 * 1024 * 1024 * 1000)
             else None)"

text \<open>SHA-256 as FIPS 180-4 defines it, on bytes, and the lower-case hexadecimal text of
  the digest.\<close>

text \<open>The round constants and the initial hash value, written in decimal.\<close>

definition K256 :: "32 word list" where
  "K256 =
    [1116352408, 1899447441, 3049323471, 3921009573, 961987163, 1508970993,
     2453635748, 2870763221, 3624381080, 310598401, 607225278, 1426881987,
     1925078388, 2162078206, 2614888103, 3248222580, 3835390401, 4022224774,
     264347078, 604807628, 770255983, 1249150122, 1555081692, 1996064986,
     2554220882, 2821834349, 2952996808, 3210313671, 3336571891, 3584528711,
     113926993, 338241895, 666307205, 773529912, 1294757372, 1396182291,
     1695183700, 1986661051, 2177026350, 2456956037, 2730485921, 2820302411,
     3259730800, 3345764771, 3516065817, 3600352804, 4094571909, 275423344,
     430227734, 506948616, 659060556, 883997877, 958139571, 1322822218,
     1537002063, 1747873779, 1955562222, 2024104815, 2227730452, 2361852424,
     2428436474, 2756734187, 3204031479, 3329325298]"

definition H256 :: "32 word list" where
  "H256 =
    [1779033703, 3144134277, 1013904242, 2773480762,
     1359893119, 2600822924, 528734635, 1541459225]"

definition rotr :: "nat \<Rightarrow> 32 word \<Rightarrow> 32 word" where
  "rotr n x = (drop_bit n x) OR (push_bit (32 - n) x)"

definition bsig0 :: "32 word \<Rightarrow> 32 word" where "bsig0 x = rotr 2 x XOR rotr 13 x XOR rotr 22 x"
definition bsig1 :: "32 word \<Rightarrow> 32 word" where "bsig1 x = rotr 6 x XOR rotr 11 x XOR rotr 25 x"
definition ssig0 :: "32 word \<Rightarrow> 32 word" where "ssig0 x = rotr 7 x XOR rotr 18 x XOR drop_bit 3 x"
definition ssig1 :: "32 word \<Rightarrow> 32 word" where "ssig1 x = rotr 17 x XOR rotr 19 x XOR drop_bit 10 x"
definition ch :: "32 word \<Rightarrow> 32 word \<Rightarrow> 32 word \<Rightarrow> 32 word" where "ch x y z = (x AND y) XOR (NOT x AND z)"
definition maj :: "32 word \<Rightarrow> 32 word \<Rightarrow> 32 word \<Rightarrow> 32 word" where "maj x y z = (x AND y) XOR (x AND z) XOR (y AND z)"

fun extend :: "nat \<Rightarrow> 32 word list \<Rightarrow> 32 word list" where
  "extend 0 ws = ws"
| "extend (Suc n) ws =
     extend n (ws @ [ssig1 (ws ! (length ws - 2)) + ws ! (length ws - 7)
                     + ssig0 (ws ! (length ws - 15)) + ws ! (length ws - 16)])"

fun rounds :: "(32 word \<times> 32 word) list \<Rightarrow> 32 word list \<Rightarrow> 32 word list" where
  "rounds [] s = s"
| "rounds ((k, w) # kws) [a, b, c, d, e, f, g, h] =
     (let t1 = h + bsig1 e + ch e f g + k + w;
          t2 = bsig0 a + maj a b c
      in rounds kws [t1 + t2, a, b, c, d + t1, e, f, g])"
| "rounds _ s = s"

fun be32 :: "8 word list \<Rightarrow> 32 word list" where
  "be32 (a # b # c # d # r) =
     (push_bit 24 (ucast a) OR push_bit 16 (ucast b) OR push_bit 8 (ucast c) OR ucast d) # be32 r"
| "be32 _ = []"

definition compress :: "32 word list \<Rightarrow> 8 word list \<Rightarrow> 32 word list" where
  "compress s block = map2 (+) s (rounds (zip K256 (extend 48 (be32 block))) s)"

fun blocks :: "nat \<Rightarrow> 8 word list \<Rightarrow> 32 word list \<Rightarrow> 32 word list" where
  "blocks 0 bs s = s"
| "blocks (Suc n) bs s = blocks n (drop 64 bs) (compress s (take 64 bs))"

definition pad :: "8 word list \<Rightarrow> 8 word list" where
  "pad m =
     (let l = length m;
          z = (55 + 64 - l mod 64) mod 64;
          bits = (word_of_nat (8 * l) :: 64 word)
      in m @ [0x80] @ replicate z 0
         @ map (\<lambda>i. ucast (drop_bit (8 * (7 - i)) bits)) [0..<8])"

definition Sum256 :: "string \<Rightarrow> 8 word list" where
  "Sum256 s =
     (let p = pad (map (\<lambda>c. word_of_nat (of_char c)) s)
      in concat (map (\<lambda>w. map (\<lambda>i. ucast (drop_bit (8 * (3 - i)) w)) [0..<4])
                   (blocks (length p div 64) p H256)))"

definition hexDigit :: "nat \<Rightarrow> char" where
  "hexDigit n = (if n < 10 then char_of (48 + n) else char_of (87 + n))"

definition EncodeToString :: "8 word list \<Rightarrow> string" where
  "EncodeToString bs = concat (map (\<lambda>b. [hexDigit (unat b div 16), hexDigit (unat b mod 16)]) bs)"

definition sha256hex :: "string \<Rightarrow> string" where
  "sha256hex s = EncodeToString (Sum256 s)"

definition asciiLower :: "char \<Rightarrow> char" where
  "asciiLower c =
     (if 65 \<le> (of_char c :: nat) \<and> (of_char c :: nat) \<le> 90 then char_of ((of_char c :: nat) + 32) else c)"

definition exampleLib :: "int Lib" where
  "exampleLib =
     \<lparr> ParseDuration = exampleParseDuration,
       MustParse = exampleMustParse,
       QuantityString = (\<lambda>q. showInt q @ ''m''),
       EqualFold = (\<lambda>a b. map asciiLower a = map asciiLower b),
       Sha256Hex = sha256hex,
       ValidUTF8 = list_all (\<lambda>c. (of_char c :: nat) < 128),
       RegistryYaml = (\<lambda>s. None),
       CatalogYaml = (\<lambda>s. None) \<rparr>"

section \<open>Example inputs\<close>

text \<open>A configuration whose default pull policy is \<open>Always\<close>, and a request that names
  no pull policy.\<close>

definition alwaysConfig :: Config where
  "alwaysConfig =
     (defaultConfig [] [] [])\<lparr>Image := (Image (defaultConfig [] [] []))\<lparr>DefaultImagePullPolicy := ''Always''\<rparr>\<rparr>"

definition plainParams :: "Struct option" where
  "plainParams = Some [(''inline_script'', StringValue ''echo hi'')]"

text \<open>A request for a two-hour timeout.\<close>

definition longTimeoutParams :: "Struct option" where
  "longTimeoutParams =
     Some [(''inline_script'', StringValue ''sleep 7000''), (''timeout'', StringValue ''2h'')]"

text \<open>A request for 50Gi of ephemeral storage.\<close>

definition bigStorageParams :: "Struct option" where
  "bigStorageParams =
     Some [(''inline_script'', StringValue ''echo hi''),
           (''resources'', StructValue
              [(''limits'', StructValue [(''ephemeral_storage'', StringValue ''50Gi'')])])]"

text \<open>A context as \<open>BuildContext\<close> makes it, the same context with its environment map
  visited in the other order, and the same context without an execution id.\<close>

definition exampleContext :: "int Context" where
  "exampleContext =
     \<lparr> ExecutionID = ''run-1'', RunbookID = ''rb-7'', User = ''alice@example.com'', StepName = [],
       Script = ''echo hi'', ScriptSource = None, ScriptHash = [], ctx_Image = ''alpine:3'',
       ImagePullPolicy = ''IfNotPresent'', ImagePullSecret = [], Interpreter = ''/bin/bash'',
       Args = [], WorkingDir = ''/workspace'', Timeout = 5 * minute, Stdin = [],
       Env = [(''A'', ''1''), (''B'', ''2'')], EnvFromSecret = [], EnvFromConfigMap = [],
       SecretEnvAll = [], ConfigMapEnvAll = [], VolumesFromSecret = [], VolumesFromConfigMap = [],
       NodeSelector = [], Tolerations = [], ctx_Affinity = None, PriorityClassName = [],
       Resources = \<lparr> res_Requests = Map.empty, res_Limits = Map.empty \<rparr>,
       ctx_ServiceAccount = ''script-executor-runner'', TTLSecondsAfterFinished = 300,
       BackoffLimit = 0, Labels = [(''team'', ''sre'')], Annotations = [] \<rparr>"

definition exampleContextReordered :: "int Context" where
  "exampleContextReordered = exampleContext\<lparr>Env := [(''B'', ''2''), (''A'', ''1'')]\<rparr>"

definition anonymousContext :: "int Context" where
  "anonymousContext = exampleContext\<lparr>ExecutionID := []\<rparr>"

text \<open>A configuration that lets the root filesystem be written.\<close>

definition writableRootConfig :: Config where
  "writableRootConfig =
     (defaultConfig [] [] [])\<lparr>Security := (Security (defaultConfig [] [] []))\<lparr>ReadOnlyRootFilesystem := False\<rparr>\<rparr>"

text \<open>A validator with a cap of three lines, a script of three lines and one of four.\<close>

definition smallValidator :: ScriptValidator where
  "smallValidator = NewScriptValidator [''rm''] [] 0 3"

definition threeLines :: string where
  "threeLines = ''echo a'' @ [newline] @ ''echo b'' @ [newline] @ ''echo c''"

definition fourLines :: string where
  "fourLines = threeLines @ [newline] @ ''echo d''"

definition blockedAtCap :: string where
  "blockedAtCap = ''rm -rf /data'' @ [newline] @ ''echo b'' @ [newline] @ ''echo c''"

definition threeLinesTerminated :: string where
  "threeLinesTerminated = threeLines @ [newline]"

definition openValidator :: ScriptValidator where
  "openValidator = NewScriptValidator [] [] 0 3"

text \<open>A cluster with nothing in it, and a request that names two script sources.\<close>

definition emptyWorld :: "int World" where
  "emptyWorld = \<lparr> ConfigMaps = [], Secrets = [], Approvals = None, StoreCalls = [], Jobs = [], AuditLog = [] \<rparr>"

definition twoSourceParams :: "Struct option" where
  "twoSourceParams =
     Some [(''script_path'', StringValue ''/scripts/cleanup.sh''), (''inline_script'', StringValue ''echo hi'')]"

text \<open>A store with one pending request, created at time 100 and approvable by alice.\<close>

definition pendingRequest :: ApprovalRequest where
  "pendingRequest =
     \<lparr> ar_ID = ''run-1-default-100'', ar_ExecutionID = ''run-1'', ar_StepName = ''default'',
       ar_RunbookID = ''rb-7'', ar_User = ''bob'', ar_Script = ''echo hi'', ar_ScriptHash = [],
       ar_Approvers = [''alice''], ar_Status = StatusPending, ar_ApprovedBy = [], ar_ApprovedAt = 0,
       ar_DeniedBy = [], ar_DeniedAt = 0, ar_DenialReason = [], ar_CreatedAt = 100,
       ar_ExpiresAt = 100 + 24 * hour \<rparr>"

definition pendingWorld :: "int World" where
  "pendingWorld =
     \<lparr> ConfigMaps = [], Secrets = [], Approvals = Some [(''run-1-default'', Json pendingRequest)],
       StoreCalls = [], Jobs = [], AuditLog = [] \<rparr>"

text \<open>A configuration with approvals switched off; a cluster with an approved script and
  a ConfigMap holding an empty script; a cluster answer for a job that ran well; and
  three requests: one by path that asks for approval, one for the empty script, one
  inline.\<close>

definition approvalOffConfig :: Config where
  "approvalOffConfig =
     (defaultConfig [] [] [])\<lparr>Approval := (Approval (defaultConfig [] [] []))\<lparr>ApprovalEnabled := False\<rparr>\<rparr>"

definition scriptWorld :: "int World" where
  "scriptWorld =
     \<lparr> ConfigMaps =
         [((''opscontrolroom-system'', ''approved-scripts''), [(''cleanup.sh'', ''find /tmp -name x'')]),
          ((''opscontrolroom-system'', ''job-scripts''), [(''empty.sh'', [])])],
       Secrets = [], Approvals = None, StoreCalls = [], Jobs = [], AuditLog = [] \<rparr>"

definition okResult :: Result where
  "okResult =
     \<lparr> r_ExitCode = 0, r_Stdout = ''done'', r_Stderr = [], r_Duration = 1000000000,
       r_JobName = ''script-exec-run-1'', r_PodName = ''script-exec-run-1-abcde'',
       r_Succeeded = True \<rparr>"

definition okWait :: "int Job \<Rightarrow> int \<Rightarrow> error + Result" where
  "okWait job timeout = Inr okResult"

definition approvalRequest :: ExecuteRequest where
  "approvalRequest =
     \<lparr> rq_Parameters = Some [(''script_path'', StringValue ''/scripts/cleanup.sh''),
                              (''image'', StringValue ''alpine:3''),
                              (''approval_required'', BoolValue True)],
       rq_Context = Some \<lparr> ExecutionId = ''run-1'', RunbookId = ''rb-7'', ec_User = ''bob'' \<rparr>,
       rq_Timeout = None \<rparr>"

definition emptyScriptRequest :: ExecuteRequest where
  "emptyScriptRequest =
     \<lparr> rq_Parameters = Some [(''script_from_configmap'',
                                StructValue [(''configmap_name'', StringValue ''job-scripts''),
                                             (''key'', StringValue ''empty.sh'')]),
                              (''image'', StringValue ''alpine:3'')],
       rq_Context = Some \<lparr> ExecutionId = ''run-1'', RunbookId = ''rb-7'', ec_User = ''bob'' \<rparr>,
       rq_Timeout = None \<rparr>"

definition inlineRequest :: ExecuteRequest where
  "inlineRequest =
     \<lparr> rq_Parameters = Some [(''inline_script'', StringValue ''echo hi''),
                              (''image'', StringValue ''alpine:3'')],
       rq_Context = Some \<lparr> ExecutionId = ''run-1'', RunbookId = ''rb-7'', ec_User = ''bob'' \<rparr>,
       rq_Timeout = None \<rparr>"

definition alpine :: ResolvedImage where
  "alpine = \<lparr> ri_Image = ''alpine:3'', ri_PullSecret = [], ri_PullPolicy = ''IfNotPresent'' \<rparr>"

definition emptySource :: Source where
  "emptySource =
     \<lparr> src_Type = SourceConfigMap, src_Content = [], src_Path = [], src_Name = ''job-scripts'',
       src_Key = ''empty.sh'', src_Namespace = ''opscontrolroom-system'' \<rparr>"

definition inlineSource :: Source where
  "inlineSource =
     \<lparr> src_Type = SourceInline, src_Content = ''echo hi'', src_Path = [], src_Name = [],
       src_Key = [], src_Namespace = [] \<rparr>"

section \<open>Properties\<close>

subsection \<open>Projections of the built job\<close>

lemma Build_containers: "pod_Containers (Build L cfg now ctx) = [buildContainer L cfg ctx]"
  by (simp add: Build_def Let_def)

text \<open>The deadline in seconds: exact on whole seconds, and rounded up by the float64 sum
  for a duration of \<open>2 ^ 24\<close> seconds and 999999999 nanoseconds.\<close>

lemma durationSeconds_examples:
  "durationSeconds (120 * minute) = 7200"
  "durationSeconds 1999999999 = 1"
  "durationSeconds 16777215999999999 = 16777215"
  "durationSeconds 16777216999999999 = 16777217"
  by code_simp+

lemma Build_deadline:
  "spec_ActiveDeadlineSeconds (Build L cfg now ctx) = Some (durationSeconds (Timeout ctx))"
  by (simp add: Build_def Let_def)

lemma parsePullPolicy_nonempty: "parsePullPolicy s \<noteq> []"
  by (simp add: parsePullPolicy_def)

subsection \<open>Resource limits\<close>

text \<open>
  Claim C1: every resource limit of the built workload (cpu, memory, ephemeral storage) is
  at most the configured maximum, a larger request being reduced to the maximum.
  \<open>buildResources\<close> caps cpu and memory and has no cap for ephemeral storage: under the
  default configuration, whose maximum is 20Gi, a request for 50Gi of ephemeral storage
  keeps its 50Gi.
\<close>

theorem buildResources_ephemeral_storage_uncapped:
  "lim_EphemeralStorage (Limits (MaxResources (Kubernetes (defaultConfig [] [] [])))) = ''20Gi''
   \<and> (case buildResources exampleLib bigStorageParams (defaultConfig [] [] []) of
         Inl e \<Rightarrow> None
       | Inr r \<Rightarrow> res_Limits r ResourceEphemeralStorage) = Some 53687091200000
   \<and> MustParse exampleLib ''50Gi'' = Some 53687091200000
   \<and> MustParse exampleLib ''20Gi'' = Some 21474836480000"
  by code_simp

subsection \<open>Timeout\<close>

text \<open>
  Claim C5: the timeout behind the active deadline is 5 minutes when the request names
  none, and a requested timeout is capped at 30 minutes.
  \<open>BuildContext\<close> never reads the maximum: under the default configuration, whose
  \<open>MaxTimeout\<close> is 30 minutes, a request for \<open>2h\<close> gets a timeout of 120 minutes and an
  active deadline of 7200 seconds.
\<close>

theorem BuildContext_timeout_uncapped:
  "cfgMaxTimeout exampleLib (defaultConfig [] [] []) = 30 * minute
   \<and> (case BuildContext exampleLib longTimeoutParams None ''sleep 7000'' None [] ''alpine:3'' [] []
              (defaultConfig [] [] []) of
         Inl e \<Rightarrow> None
       | Inr ctx \<Rightarrow>
           Some (Timeout ctx,
                 spec_ActiveDeadlineSeconds (Build exampleLib (defaultConfig [] [] []) 0 ctx)))
       = Some (120 * minute, Some 7200)"
  unfolding Build_deadline by code_simp

subsection \<open>Pull policy\<close>

text \<open>
  Claim C6: the pull policy of the built workload is the request's \<open>image_pull_policy\<close>
  when that is one of Always, IfNotPresent, Never; otherwise the configured default; and
  IfNotPresent when no default is configured.
  \<open>parsePullPolicy\<close> already answers IfNotPresent for every other string, so the test
  for the empty string that would bring in the configured default never fires: with the
  default \<open>Always\<close> configured and no policy in the request, the container's policy is
  IfNotPresent.
\<close>

theorem BuildContext_pull_policy_skips_configured_default:
  "DefaultImagePullPolicy (Image alwaysConfig) = ''Always''
   \<and> getString plainParams ''image_pull_policy'' [] = []
   \<and> (case BuildContext exampleLib plainParams None ''echo hi'' None [] ''alpine:3'' ''Always'' []
              alwaysConfig of
         Inl e \<Rightarrow> []
       | Inr ctx \<Rightarrow> map c_ImagePullPolicy (pod_Containers (Build exampleLib alwaysConfig 0 ctx)))
       = [''IfNotPresent'']"
  unfolding Build_containers by code_simp

subsection \<open>The container's security context\<close>

lemma Load_security:
  "ReadOnlyRootFilesystem (Security (Load fileConfig envNs envImg envSecret)) = True
   \<and> RunAsNonRoot (Security (Load fileConfig envNs envImg envSecret)) = True"
  by (simp add: Load_def applyEnvOverrides_def mergeConfig_def defaultConfig_def Let_def split: option.splits)

text \<open>
  Claim C2, as the code has it: the job has one container; its security context forbids
  privilege escalation and drops ALL capabilities whatever the request and the
  configuration say; its read-only root filesystem and run-as-non-root flags are those of
  the builder's configuration, which are both true in every configuration that \<open>Load\<close>
  returns.
\<close>

theorem Build_security_context:
  "\<exists>c sc. pod_Containers (Build L cfg clock ctx) = [c]
      \<and> c_SecurityContext c = Some sc
      \<and> sc_AllowPrivilegeEscalation sc = Some False
      \<and> sc_CapabilitiesDrop sc = [''ALL'']
      \<and> sc_ReadOnlyRootFilesystem sc = Some (ReadOnlyRootFilesystem (Security cfg))
      \<and> sc_RunAsNonRoot sc = Some (RunAsNonRoot (Security cfg))
      \<and> (cfg = Load fileConfig envNs envImg envSecret \<longrightarrow>
            sc_ReadOnlyRootFilesystem sc = Some True \<and> sc_RunAsNonRoot sc = Some True)"
  by (auto simp: Build_containers buildContainer_def Let_def Load_security)

theorem Build_security_context_witness:
  "\<forall>ctx :: int Context.
     \<exists>c sc. pod_Containers (Build exampleLib (Load None [] [] []) 0 ctx) = [c]
      \<and> c_SecurityContext c = Some sc
      \<and> sc_AllowPrivilegeEscalation sc = Some False
      \<and> sc_CapabilitiesDrop sc = [''ALL'']
      \<and> sc_ReadOnlyRootFilesystem sc = Some True
      \<and> sc_RunAsNonRoot sc = Some True"
proof
  fix ctx :: "int Context"
  show "\<exists>c sc. pod_Containers (Build exampleLib (Load None [] [] []) 0 ctx) = [c]
      \<and> c_SecurityContext c = Some sc
      \<and> sc_AllowPrivilegeEscalation sc = Some False
      \<and> sc_CapabilitiesDrop sc = [''ALL'']
      \<and> sc_ReadOnlyRootFilesystem sc = Some True
      \<and> sc_RunAsNonRoot sc = Some True"
    using Build_security_context [of exampleLib "Load None [] [] []" 0 ctx None "[]" "[]" "[]"]
    by blast
qed

text \<open>A builder whose configuration has \<open>ReadOnlyRootFilesystem = False\<close> builds a container
  with a writable root filesystem.\<close>

theorem Build_security_context_counterexample:
  "map (\<lambda>c. map_option sc_ReadOnlyRootFilesystem (c_SecurityContext c))
     (pod_Containers (Build exampleLib writableRootConfig 0 exampleContext)) = [Some (Some False)]"
  by (simp add: Build_containers buildContainer_def Let_def writableRootConfig_def defaultConfig_def)

subsection \<open>Determinism of the builder\<close>

lemma sameMap_map_of: "sameMap xs ys \<Longrightarrow> map_of xs = map_of ys"
proof -
  assume a: "sameMap xs ys"
  then have d: "distinct (map fst xs)" and m: "mset xs = mset ys" by (auto simp: sameMap_def)
  from m have "mset (map fst xs) = mset (map fst ys)" by (metis mset_map)
  with d have d2: "distinct (map fst ys)" by (metis mset_eq_imp_distinct_iff)
  from m have "set xs = set ys" by (rule mset_eq_setD)
  with d d2 show ?thesis by (simp add: map_of_inject_set)
qed

lemma withoutMaps_fields:
  assumes "withoutMaps c1 = withoutMaps c2"
  shows "ExecutionID c1 = ExecutionID c2" "RunbookID c1 = RunbookID c2" "User c1 = User c2" "StepName c1 = StepName c2" "Script c1 = Script c2" "ScriptSource c1 = ScriptSource c2" "ScriptHash c1 = ScriptHash c2" "ctx_Image c1 = ctx_Image c2" "ImagePullPolicy c1 = ImagePullPolicy c2" "ImagePullSecret c1 = ImagePullSecret c2" "Interpreter c1 = Interpreter c2" "Args c1 = Args c2" "WorkingDir c1 = WorkingDir c2" "Timeout c1 = Timeout c2" "Stdin c1 = Stdin c2" "SecretEnvAll c1 = SecretEnvAll c2" "ConfigMapEnvAll c1 = ConfigMapEnvAll c2" "VolumesFromSecret c1 = VolumesFromSecret c2" "VolumesFromConfigMap c1 = VolumesFromConfigMap c2" "Tolerations c1 = Tolerations c2" "ctx_Affinity c1 = ctx_Affinity c2" "PriorityClassName c1 = PriorityClassName c2" "Resources c1 = Resources c2" "ctx_ServiceAccount c1 = ctx_ServiceAccount c2" "TTLSecondsAfterFinished c1 = TTLSecondsAfterFinished c2" "BackoffLimit c1 = BackoffLimit c2"
proof -
  show "ExecutionID c1 = ExecutionID c2" using arg_cong [OF assms, of ExecutionID] by (simp add: withoutMaps_def)
  show "RunbookID c1 = RunbookID c2" using arg_cong [OF assms, of RunbookID] by (simp add: withoutMaps_def)
  show "User c1 = User c2" using arg_cong [OF assms, of User] by (simp add: withoutMaps_def)
  show "StepName c1 = StepName c2" using arg_cong [OF assms, of StepName] by (simp add: withoutMaps_def)
  show "Script c1 = Script c2" using arg_cong [OF assms, of Script] by (simp add: withoutMaps_def)
  show "ScriptSource c1 = ScriptSource c2" using arg_cong [OF assms, of ScriptSource] by (simp add: withoutMaps_def)
  show "ScriptHash c1 = ScriptHash c2" using arg_cong [OF assms, of ScriptHash] by (simp add: withoutMaps_def)
  show "ctx_Image c1 = ctx_Image c2" using arg_cong [OF assms, of ctx_Image] by (simp add: withoutMaps_def)
  show "ImagePullPolicy c1 = ImagePullPolicy c2" using arg_cong [OF assms, of ImagePullPolicy] by (simp add: withoutMaps_def)
  show "ImagePullSecret c1 = ImagePullSecret c2" using arg_cong [OF assms, of ImagePullSecret] by (simp add: withoutMaps_def)
  show "Interpreter c1 = Interpreter c2" using arg_cong [OF assms, of Interpreter] by (simp add: withoutMaps_def)
  show "Args c1 = Args c2" using arg_cong [OF assms, of Args] by (simp add: withoutMaps_def)
  show "WorkingDir c1 = WorkingDir c2" using arg_cong [OF assms, of WorkingDir] by (simp add: withoutMaps_def)
  show "Timeout c1 = Timeout c2" using arg_cong [OF assms, of Timeout] by (simp add: withoutMaps_def)
  show "Stdin c1 = Stdin c2" using arg_cong [OF assms, of Stdin] by (simp add: withoutMaps_def)
  show "SecretEnvAll c1 = SecretEnvAll c2" using arg_cong [OF assms, of SecretEnvAll] by (simp add: withoutMaps_def)
  show "ConfigMapEnvAll c1 = ConfigMapEnvAll c2" using arg_cong [OF assms, of ConfigMapEnvAll] by (simp add: withoutMaps_def)
  show "VolumesFromSecret c1 = VolumesFromSecret c2" using arg_cong [OF assms, of VolumesFromSecret] by (simp add: withoutMaps_def)
  show "VolumesFromConfigMap c1 = VolumesFromConfigMap c2" using arg_cong [OF assms, of VolumesFromConfigMap] by (simp add: withoutMaps_def)
  show "Tolerations c1 = Tolerations c2" using arg_cong [OF assms, of Tolerations] by (simp add: withoutMaps_def)
  show "ctx_Affinity c1 = ctx_Affinity c2" using arg_cong [OF assms, of ctx_Affinity] by (simp add: withoutMaps_def)
  show "PriorityClassName c1 = PriorityClassName c2" using arg_cong [OF assms, of PriorityClassName] by (simp add: withoutMaps_def)
  show "Resources c1 = Resources c2" using arg_cong [OF assms, of Resources] by (simp add: withoutMaps_def)
  show "ctx_ServiceAccount c1 = ctx_ServiceAccount c2" using arg_cong [OF assms, of ctx_ServiceAccount] by (simp add: withoutMaps_def)
  show "TTLSecondsAfterFinished c1 = TTLSecondsAfterFinished c2" using arg_cong [OF assms, of TTLSecondsAfterFinished] by (simp add: withoutMaps_def)
  show "BackoffLimit c1 = BackoffLimit c2" using arg_cong [OF assms, of BackoffLimit] by (simp add: withoutMaps_def)
qed

lemma mset_map_filter: "mset xs = mset ys \<Longrightarrow> mset (List.map_filter f xs) = mset (List.map_filter f ys)"
  by (simp add: map_filter_def)

lemma buildEnvVars_same:
  assumes "sameContext c1 c2"
  shows "mset (buildEnvVars c1) = mset (buildEnvVars c2)"
proof -
  from assms have a: "mset (Env c1) = mset (Env c2)" and b: "mset (EnvFromSecret c1) = mset (EnvFromSecret c2)"
    and c: "mset (EnvFromConfigMap c1) = mset (EnvFromConfigMap c2)"
    by (simp_all add: sameContext_def sameMap_def)
  have a': "\<And>f. mset (map f (Env c1)) = mset (map f (Env c2))"
    using a by (metis mset_map)
  show ?thesis
    unfolding buildEnvVars_def mset_append
    by (simp only: a' mset_map_filter [OF b] mset_map_filter [OF c])
qed

lemma buildContainer_same:
  assumes "sameContext c1 c2"
  shows "sameContainer (buildContainer L cfg c1) (buildContainer L cfg c2)"
proof -
  from assms have w: "withoutMaps c1 = withoutMaps c2" by (simp add: sameContext_def)
  note f = withoutMaps_fields [OF w]
  show ?thesis
    unfolding sameContainer_def buildContainer_def Let_def buildEnvFrom_def buildVolumeMounts_def
      isPathSource_def f
    by (simp add: buildEnvVars_same [OF assms])
qed

lemma Build_clock: "ExecutionID c \<noteq> [] \<Longrightarrow> Build L cfg clock1 c = Build L cfg clock2 c"
  by (simp add: Build_def Let_def)

text \<open>
  Claim C10, as the code has it: two runs of \<open>Build\<close> on the same execution context give the
  same manifest, up to the order of map entries, when the execution id is not empty or
  both runs read the same clock second. (With an empty execution id the job is named
  after the clock.)
\<close>

theorem Build_deterministic:
  assumes "sameContext c1 c2" and "ExecutionID c1 \<noteq> [] \<or> clock1 = clock2"
  shows "sameManifest (Build L cfg clock1 c1) (Build L cfg clock2 c2)"
proof -
  have maps: "map_of (Labels c1) = map_of (Labels c2)" "map_of (Annotations c1) = map_of (Annotations c2)"
    "map_of (NodeSelector c1) = map_of (NodeSelector c2)"
    using assms(1) by (simp_all add: sameContext_def sameMap_map_of)
  from assms(1) have w: "withoutMaps c1 = withoutMaps c2" by (simp add: sameContext_def)
  note f = withoutMaps_fields [OF w]
  have clk: "Build L cfg clock1 c1 = Build L cfg clock2 c1"
    using assms(2) Build_clock [of c1 L cfg clock1 clock2] by auto
  have "(Build L cfg clock2 c1)\<lparr>pod_Containers := []\<rparr> = (Build L cfg clock2 c2)\<lparr>pod_Containers := []\<rparr>"
    unfolding Build_def Let_def buildVolumes_def isPathSource_def f maps
    by simp
  moreover have "list_all2 sameContainer (pod_Containers (Build L cfg clock1 c1))
                   (pod_Containers (Build L cfg clock2 c2))"
    using buildContainer_same [OF assms(1), of L cfg] by (simp add: Build_containers)
  ultimately show ?thesis by (simp add: sameManifest_def clk)
qed

theorem Build_deterministic_witness:
  "sameContext exampleContext exampleContextReordered
   \<and> ExecutionID exampleContext \<noteq> []
   \<and> sameManifest (Build exampleLib (defaultConfig [] [] []) 1 exampleContext)
        (Build exampleLib (defaultConfig [] [] []) 2 exampleContextReordered)"
proof -
  have s: "sameContext exampleContext exampleContextReordered"
    by (simp add: sameContext_def sameMap_def withoutMaps_def exampleContextReordered_def exampleContext_def)
  have e: "ExecutionID exampleContext \<noteq> []" by (simp add: exampleContext_def)
  have m: "sameManifest (Build exampleLib (defaultConfig [] [] []) 1 exampleContext)
        (Build exampleLib (defaultConfig [] [] []) 2 exampleContextReordered)"
    by (rule Build_deterministic [OF s disjI1 [OF e]])
  show ?thesis by (intro conjI s e m)
qed

lemma showInt_1700000000: "showInt 1700000000 = ''1700000000''"
  by (simp add: showInt_def) code_simp

lemma showInt_1700000001: "showInt 1700000001 = ''1700000001''"
  by (simp add: showInt_def) code_simp

text \<open>With an empty execution id the job name is the clock's second: two runs one second
  apart give different manifests.\<close>

theorem Build_deterministic_counterexample:
  "job_Name (Build exampleLib (defaultConfig [] [] []) 1700000000 anonymousContext) = ''script-exec-1700000000''
   \<and> job_Name (Build exampleLib (defaultConfig [] [] []) 1700000001 anonymousContext) = ''script-exec-1700000001''
   \<and> \<not> sameManifest (Build exampleLib (defaultConfig [] [] []) 1700000000 anonymousContext)
          (Build exampleLib (defaultConfig [] [] []) 1700000001 anonymousContext)"
proof -
  have n: "\<And>clock. job_Name (Build exampleLib (defaultConfig [] [] []) clock anonymousContext) = ''script-exec-'' @ showInt clock"
    by (simp add: Build_def Let_def anonymousContext_def)
  have "\<not> sameManifest (Build exampleLib (defaultConfig [] [] []) 1700000000 anonymousContext)
          (Build exampleLib (defaultConfig [] [] []) 1700000001 anonymousContext)"
  proof
    assume "sameManifest (Build exampleLib (defaultConfig [] [] []) 1700000000 anonymousContext)
          (Build exampleLib (defaultConfig [] [] []) 1700000001 anonymousContext)"
    then have "(Build exampleLib (defaultConfig [] [] []) 1700000000 anonymousContext)\<lparr>pod_Containers := []\<rparr>
       = (Build exampleLib (defaultConfig [] [] []) 1700000001 anonymousContext)\<lparr>pod_Containers := []\<rparr>"
      by (simp add: sameManifest_def)
    from arg_cong [OF this, of job_Name]
    show False by (simp add: n showInt_1700000000 showInt_1700000001)
  qed
  then show ?thesis by (simp add: n showInt_1700000000 showInt_1700000001)
qed

subsection \<open>The line cap of the validator\<close>

text \<open>White space outside ASCII separates words like a blank: a no-break space (U+00A0)
  before \<open>rm\<close> does not hide the command from the filter.\<close>

lemma Validate_no_break_space:
  "Validate smallValidator ([CHR 0xC2, CHR 0xA0] @ ''rm -rf /'') = Some (BlockedCommand ''rm'')"
  by code_simp

lemma splitWhen_length: "length (splitWhen p s) = Suc (length (filter p s))"
  by (induction s) (auto split: list.splits)

lemma splitLines_length: "length (splitLines s) = Suc (length (filter (\<lambda>c. c = newline) s))"
  by (simp add: splitLines_def splitWhen_length)

lemma splitLines_specLineCount:
  "length (splitLines s) = specLineCount s + (if s = [] \<or> last s = newline then 1 else 0)"
  by (simp add: splitLines_length specLineCount_def)

lemma splitWhen_not_Nil: "splitWhen p s \<noteq> []"
  by (cases s) (auto split: list.splits)

lemma splitWhen_Cons:
  "splitWhen p (x # xs) =
     (if p x then [] # splitWhen p xs else (x # hd (splitWhen p xs)) # tl (splitWhen p xs))"
  using splitWhen_not_Nil [of p xs] by (cases "splitWhen p xs") auto

lemma splitWhen_tl_Nil: "(tl (splitWhen p s) = []) = (filter p s = [])"
proof -
  have "(tl (splitWhen p s) = []) = (length (splitWhen p s) = 1)"
    using splitWhen_not_Nil [of p s] by (cases "splitWhen p s") auto
  then show ?thesis by (simp add: splitWhen_length)
qed

lemma splitWhen_last: "(last (splitWhen p s) = []) = (s = [] \<or> p (last s))"
proof (induction s)
  case Nil
  show ?case by simp
next
  case (Cons x xs)
  show ?case
  proof (cases "p x")
    case True
    with Cons.IH show ?thesis by (simp add: splitWhen_not_Nil)
  next
    case False
    show ?thesis
    proof (cases "filter p xs = []")
      case True
      then have "xs \<noteq> [] \<Longrightarrow> \<not> p (last xs)"
        by (metis filter_empty_conv last_in_set)
      with True False show ?thesis
        unfolding splitWhen_Cons by (auto simp add: splitWhen_tl_Nil)
    next
      case nonempty: False
      then have t: "tl (splitWhen p xs) \<noteq> []" by (simp add: splitWhen_tl_Nil)
      then have "last (splitWhen p xs) = last (tl (splitWhen p xs))"
        using splitWhen_not_Nil [of p xs] by (cases "splitWhen p xs") auto
      moreover from nonempty have "xs \<noteq> []" by auto
      ultimately show ?thesis
        unfolding splitWhen_Cons using False t Cons.IH by simp
    qed
  qed
qed

lemma scanLines_specLineCount:
  assumes "\<forall>l\<in>set (splitLines s). int (length l) < 65536"
  shows "length (scanLines s) = specLineCount s"
proof -
  define ls where "ls = (if last (splitLines s) = [] then butlast (splitLines s) else splitLines s)"
  have "set ls \<subseteq> set (splitLines s)"
    unfolding ls_def by (auto dest: in_set_butlastD)
  with assms have tw: "takeWhile (\<lambda>l. int (length l) < 65536) ls = ls"
    by (intro takeWhile_eq_all_conv [THEN iffD2]) blast
  have "scanLines s = map (\<lambda>l. TrimSuffix l [CHR 0x0D]) (takeWhile (\<lambda>l. int (length l) < 65536) ls)"
    unfolding scanLines_def ls_def Let_def ..
  then have "scanLines s = map (\<lambda>l. TrimSuffix l [CHR 0x0D]) ls"
    unfolding tw .
  then have "length (scanLines s) = length ls" by (simp only: length_map)
  also have "\<dots> = specLineCount s"
    unfolding ls_def using splitWhen_last [of "\<lambda>c. c = newline" s]
    by (simp add: specLineCount_def splitLines_def splitWhen_length)
  finally show ?thesis .
qed

lemma find_None_list_ex: "(List.find P xs = None) = (\<not> list_ex P xs)"
  by (induction xs) auto

lemma find_not_None_list_all: "(List.find (\<lambda>x. \<not> P x) xs = None) = list_all P xs"
  by (induction xs) auto

lemma checkCommands_None:
  "(checkCommands v cmds = None) =
     (\<not> list_ex (\<lambda>cmd. list_ex (matchesCommand cmd) (blockedCommands v)) cmds
      \<and> (allowedCommands v = [] \<or> list_all (\<lambda>cmd. list_ex (matchesCommand cmd) (allowedCommands v)) cmds))"
proof (cases "List.find (\<lambda>cmd. list_ex (matchesCommand cmd) (blockedCommands v)) cmds")
  case None
  then have nb: "\<not> list_ex (\<lambda>cmd. list_ex (matchesCommand cmd) (blockedCommands v)) cmds"
    by (simp add: find_None_list_ex)
  show ?thesis
  proof (cases "List.find (\<lambda>cmd. \<not> list_ex (matchesCommand cmd) (allowedCommands v)) cmds")
    case None
    note n2 = this
    then have "list_all (\<lambda>cmd. list_ex (matchesCommand cmd) (allowedCommands v)) cmds"
      by (simp add: find_not_None_list_all)
    with nb n2 \<open>List.find (\<lambda>cmd. list_ex (matchesCommand cmd) (blockedCommands v)) cmds = None\<close>
    show ?thesis by (simp add: checkCommands_def)
  next
    case (Some c)
    note s2 = this
    then have "\<not> list_all (\<lambda>cmd. list_ex (matchesCommand cmd) (allowedCommands v)) cmds"
      using find_not_None_list_all [of "\<lambda>cmd. list_ex (matchesCommand cmd) (allowedCommands v)" cmds] by simp
    with nb s2 \<open>List.find (\<lambda>cmd. list_ex (matchesCommand cmd) (blockedCommands v)) cmds = None\<close>
    show ?thesis by (simp add: checkCommands_def)
  qed
next
  case (Some c)
  then have "list_ex (\<lambda>cmd. list_ex (matchesCommand cmd) (blockedCommands v)) cmds"
    using find_None_list_ex [of "\<lambda>cmd. list_ex (matchesCommand cmd) (blockedCommands v)" cmds] by simp
  with Some show ?thesis by (simp add: checkCommands_def)
qed

text \<open>
  Claim C7, as the code has it. Lines are the spec's newline-delimited lines
  (\<open>specLineCount\<close>) and the script is within the size cap. If it has exactly the line cap
  of lines and does not end in a newline, neither limit fires and the verdict is that of
  the command filter alone: the script is accepted exactly when no extracted command is
  blocked and the allow list, if there is one, covers them all; in particular it is
  accepted when both lists are empty. If it has one line more than the line cap it is
  rejected with TooLong, whatever its commands and its last byte; the number of lines in
  the error is the spec's count when the script does not end in a newline.
\<close>

theorem Validate_at_line_cap:
  assumes "int (length script) \<le> maxSize v"
  shows "(int (specLineCount script) = maxLines v \<and> script \<noteq> [] \<and> last script \<noteq> newline \<longrightarrow>
            Validate v script = checkCommands v (extractCommands script)
            \<and> ((Validate v script = None) =
                 (\<not> list_ex (\<lambda>cmd. list_ex (matchesCommand cmd) (blockedCommands v)) (extractCommands script)
                  \<and> (allowedCommands v = []
                      \<or> list_all (\<lambda>cmd. list_ex (matchesCommand cmd) (allowedCommands v)) (extractCommands script))))
            \<and> (blockedCommands v = [] \<and> allowedCommands v = [] \<longrightarrow> Validate v script = None))
       \<and> (int (specLineCount script) = maxLines v + 1 \<longrightarrow>
            (\<exists>n. Validate v script = Some (TooLong n (maxLines v)))
            \<and> (script \<noteq> [] \<and> last script \<noteq> newline \<longrightarrow>
                 Validate v script = Some (TooLong (specLineCount script) (maxLines v))))"
proof -
  have atcap: "Validate v script = checkCommands v (extractCommands script)"
    if "int (specLineCount script) = maxLines v" "script \<noteq> []" "last script \<noteq> newline"
    using assms that by (simp add: Validate_def Let_def splitLines_specLineCount)
  have over: "Validate v script = Some (TooLong (length (splitLines script)) (maxLines v))"
    if "int (specLineCount script) = maxLines v + 1"
    using assms that by (simp add: Validate_def Let_def splitLines_specLineCount)
  have exact: "length (splitLines script) = specLineCount script"
    if "script \<noteq> []" "last script \<noteq> newline"
    using that by (simp add: splitLines_specLineCount)
  have empty: "checkCommands v cmds = None" if "blockedCommands v = []" "allowedCommands v = []" for cmds
    using that by (simp add: checkCommands_None list_ex_iff)
  from atcap over exact empty show ?thesis
    by (auto simp add: checkCommands_None)
qed

theorem Validate_at_line_cap_witness:
  "int (length threeLines) \<le> maxSize smallValidator
   \<and> int (specLineCount threeLines) = maxLines smallValidator
   \<and> threeLines \<noteq> [] \<and> last threeLines \<noteq> newline
   \<and> Validate smallValidator threeLines = None
   \<and> int (length blockedAtCap) \<le> maxSize openValidator
   \<and> int (specLineCount blockedAtCap) = maxLines openValidator
   \<and> blockedAtCap \<noteq> [] \<and> last blockedAtCap \<noteq> newline
   \<and> blockedCommands openValidator = [] \<and> allowedCommands openValidator = []
   \<and> Validate openValidator blockedAtCap = None
   \<and> int (length fourLines) \<le> maxSize smallValidator
   \<and> int (specLineCount fourLines) = maxLines smallValidator + 1
   \<and> fourLines \<noteq> [] \<and> last fourLines \<noteq> newline
   \<and> Validate smallValidator fourLines = Some (TooLong 4 3)"
proof -
  have a: "int (length threeLines) \<le> maxSize smallValidator" by code_simp
  have b: "int (specLineCount threeLines) = maxLines smallValidator" by code_simp
  have b': "threeLines \<noteq> []" "last threeLines \<noteq> newline" by code_simp+
  have c: "int (length fourLines) \<le> maxSize smallValidator" by code_simp
  have d: "int (specLineCount fourLines) = maxLines smallValidator + 1" by code_simp
  have d': "fourLines \<noteq> []" "last fourLines \<noteq> newline" by code_simp+
  have e: "checkCommands smallValidator (extractCommands threeLines) = None" by code_simp
  have f: "specLineCount fourLines = 4" "maxLines smallValidator = 3" by code_simp+
  have g: "int (length blockedAtCap) \<le> maxSize openValidator" by code_simp
  have h: "int (specLineCount blockedAtCap) = maxLines openValidator" by code_simp
  have h': "blockedAtCap \<noteq> []" "last blockedAtCap \<noteq> newline" by code_simp+
  have i: "blockedCommands openValidator = []" "allowedCommands openValidator = []" by code_simp+
  from Validate_at_line_cap [OF a] b b' e have "Validate smallValidator threeLines = None" by simp
  moreover from Validate_at_line_cap [OF g] h h' i
  have "Validate openValidator blockedAtCap = None" by blast
  moreover from Validate_at_line_cap [OF c] d d' f
  have "Validate smallValidator fourLines = Some (TooLong 4 3)" by simp
  ultimately show ?thesis using a b b' c d d' g h h' i by simp
qed

text \<open>Two scripts of exactly three lines under a line cap of three that \<open>Validate\<close> rejects.
  The first is sent on to the command filter, which finds the blocked command \<open>rm\<close>. The
  second is three lines that each end in a newline: \<open>strings.Split\<close> counts the empty piece
  after the final newline as a fourth line (the scanner of \<open>extractCommands\<close> reads three),
  and the script is rejected with TooLong although no command of it is blocked.\<close>

theorem Validate_line_cap_counterexample:
  "int (length blockedAtCap) \<le> maxSize smallValidator
   \<and> int (specLineCount blockedAtCap) = maxLines smallValidator
   \<and> Validate smallValidator blockedAtCap = Some (BlockedCommand ''rm'')
   \<and> int (length threeLinesTerminated) \<le> maxSize smallValidator
   \<and> int (specLineCount threeLinesTerminated) = maxLines smallValidator
   \<and> length (scanLines threeLinesTerminated) = 3
   \<and> checkCommands smallValidator (extractCommands threeLinesTerminated) = None
   \<and> Validate smallValidator threeLinesTerminated = Some (TooLong 4 3)"
proof -
  have "int (length blockedAtCap) \<le> maxSize smallValidator" by code_simp
  moreover have "int (specLineCount blockedAtCap) = maxLines smallValidator" by code_simp
  moreover have "Validate smallValidator blockedAtCap = Some (BlockedCommand ''rm'')" by code_simp
  moreover have "int (length threeLinesTerminated) \<le> maxSize smallValidator" by code_simp
  moreover have "int (specLineCount threeLinesTerminated) = maxLines smallValidator" by code_simp
  moreover have "length (scanLines threeLinesTerminated) = 3" by code_simp
  moreover have "checkCommands smallValidator (extractCommands threeLinesTerminated) = None" by code_simp
  moreover have "Validate smallValidator threeLinesTerminated = Some (TooLong 4 3)" by code_simp
  ultimately show ?thesis by simp
qed

subsection \<open>The priority of script sources\<close>

lemma loadInline_type: "loadInline params = Inr (c, s) \<Longrightarrow> src_Type s = SourceInline"
  by (auto simp: loadInline_def Let_def)

lemma loadConfigMapRef_type: "loadConfigMapRef w ns params = Inr (c, s) \<Longrightarrow> src_Type s = SourceConfigMap"
  by (auto simp: loadConfigMapRef_def Let_def split: if_splits sum.splits)

lemma loadSecretRef_type: "loadSecretRef w ns params = Inr (c, s) \<Longrightarrow> src_Type s = SourceSecret"
  by (auto simp: loadSecretRef_def Let_def split: if_splits sum.splits)

lemma loadPath_type: "loadPath w ns params = Inr (c, s) \<Longrightarrow> src_Type s = SourcePath \<and> c = []"
  by (auto simp: loadPath_def Let_def split: if_splits sum.splits)

lemma LoadByID_type: "LoadByID L w ns scriptID = Inr (c, s) \<Longrightarrow> src_Type s = SourceRegistry"
  by (auto simp: LoadByID_def bindE_def split: if_splits sum.splits)

lemma loadRegistryID_type: "loadRegistryID L w ns params = Inr (c, s) \<Longrightarrow> src_Type s = SourceRegistry"
  by (auto simp: loadRegistryID_def dest: LoadByID_type split: sum.splits)

lemma loadInline_err: "loadInline params \<noteq> Inl NoSourceProvided"
  by (simp add: loadInline_def Let_def)

lemma loadConfigMapRef_err: "loadConfigMapRef w ns params \<noteq> Inl NoSourceProvided"
  by (simp add: loadConfigMapRef_def Let_def split: sum.splits)

lemma loadSecretRef_err: "loadSecretRef w ns params \<noteq> Inl NoSourceProvided"
  by (simp add: loadSecretRef_def Let_def split: sum.splits)

lemma loadPath_err: "loadPath w ns params \<noteq> Inl NoSourceProvided"
  by (simp add: loadPath_def Let_def split: sum.splits)

lemma loadRegistryID_err: "loadRegistryID L w ns params \<noteq> Inl NoSourceProvided"
  by (simp add: loadRegistryID_def split: sum.splits)

text \<open>
  Claim C8: \<open>LoadScript\<close> takes the first source provided in the order inline_script,
  script_from_configmap, script_from_secret, script_path, script_id, whatever else is
  set, and fails with NoSourceProvided when none is provided. A source is provided when
  its test in the source fires: a non-empty string, or a sub-bag with at least one field.
  The result is that of the first provided source's branch alone (an error of that
  branch is final); a loaded script carries that source's type; and NoSourceProvided is
  the answer exactly when nothing is provided.
\<close>

theorem LoadScript_priority:
  "(inlineProvided params \<longrightarrow> LoadScript L w ns params = loadInline params)
   \<and> (\<not> inlineProvided params \<and> configMapProvided params \<longrightarrow>
        LoadScript L w ns params = loadConfigMapRef w ns params)
   \<and> (\<not> inlineProvided params \<and> \<not> configMapProvided params \<and> secretProvided params \<longrightarrow>
        LoadScript L w ns params = loadSecretRef w ns params)
   \<and> (\<not> inlineProvided params \<and> \<not> configMapProvided params \<and> \<not> secretProvided params
        \<and> pathProvided params \<longrightarrow>
        LoadScript L w ns params = loadPath w ns params)
   \<and> (\<not> inlineProvided params \<and> \<not> configMapProvided params \<and> \<not> secretProvided params
        \<and> \<not> pathProvided params \<and> idProvided params \<longrightarrow>
        LoadScript L w ns params = loadRegistryID L w ns params)
   \<and> (\<forall>content source. LoadScript L w ns params = Inr (content, source) \<longrightarrow>
        firstProvided params = Some (src_Type source))
   \<and> ((LoadScript L w ns params = Inl NoSourceProvided) = (firstProvided params = None))"
proof -
  have t: "\<forall>content source. LoadScript L w ns params = Inr (content, source) \<longrightarrow>
        firstProvided params = Some (src_Type source)"
    by (auto simp: LoadScript_def firstProvided_def
        dest: loadInline_type loadConfigMapRef_type loadSecretRef_type loadPath_type loadRegistryID_type
        split: if_splits)
  have n: "(LoadScript L w ns params = Inl NoSourceProvided) = (firstProvided params = None)"
    by (simp add: LoadScript_def firstProvided_def loadInline_err loadConfigMapRef_err
        loadSecretRef_err loadPath_err loadRegistryID_err)
  show ?thesis using t n by (simp add: LoadScript_def)
qed

theorem LoadScript_priority_witness:
  "inlineProvided twoSourceParams \<and> pathProvided twoSourceParams
   \<and> LoadScript exampleLib emptyWorld ''ops'' twoSourceParams =
       Inr (''echo hi'', \<lparr> src_Type = SourceInline, src_Content = ''echo hi'', src_Path = [],
                           src_Name = [], src_Key = [], src_Namespace = [] \<rparr>)
   \<and> firstProvided (Some []) = None
   \<and> LoadScript exampleLib emptyWorld ''ops'' (Some []) = Inl NoSourceProvided"
proof -
  have a: "inlineProvided twoSourceParams" by code_simp
  have b: "pathProvided twoSourceParams" by code_simp
  have c: "loadInline twoSourceParams =
       Inr (''echo hi'', \<lparr> src_Type = SourceInline, src_Content = ''echo hi'', src_Path = [],
                           src_Name = [], src_Key = [], src_Namespace = [] \<rparr>)" by code_simp
  have d: "firstProvided (Some []) = None" by code_simp
  from LoadScript_priority [of twoSourceParams exampleLib emptyWorld "''ops''"] a c
  have e: "LoadScript exampleLib emptyWorld ''ops'' twoSourceParams =
       Inr (''echo hi'', \<lparr> src_Type = SourceInline, src_Content = ''echo hi'', src_Path = [],
                           src_Name = [], src_Key = [], src_Namespace = [] \<rparr>)" by simp
  from LoadScript_priority [of "Some []" exampleLib emptyWorld "''ops''"] d
  have f: "LoadScript exampleLib emptyWorld ''ops'' (Some []) = Inl NoSourceProvided" by simp
  show ?thesis by (intro conjI a b e d f)
qed

subsection \<open>Approving a request\<close>

lemma storeGet_cases:
  "storeGet w now e s =
     (case storedRecord w e s of
        None \<Rightarrow>
          (Inl (case Approvals w of
                  None \<Rightarrow> ClusterError ''approvals configmap''
                | Some data \<Rightarrow>
                    (case map_of data (storeKey e s) of Some (Garbage t) \<Rightarrow> DecodeError | _ \<Rightarrow> ApprovalNotFound)),
           w\<lparr>StoreCalls := StoreCalls w @ [CallGet (storeKey e s)]\<rparr>)
      | Some r \<Rightarrow>
          if ar_Status r = StatusPending \<and> now > ar_ExpiresAt r
          then (Inr (r\<lparr>ar_Status := StatusExpired\<rparr>),
                snd (storeUpdate (w\<lparr>StoreCalls := StoreCalls w @ [CallGet (storeKey e s)]\<rparr>)
                       (r\<lparr>ar_Status := StatusExpired\<rparr>)))
          else (Inr r, w\<lparr>StoreCalls := StoreCalls w @ [CallGet (storeKey e s)]\<rparr>))"
  by (simp add: storeGet_def storedRecord_def Let_def split: option.splits StoredValue.splits)

lemma storeUpdate_Approvals:
  "Approvals w = Some data \<Longrightarrow>
   storeUpdate w r =
     (None, w\<lparr>StoreCalls := StoreCalls w @ [CallUpdate (storeKey (ar_ExecutionID r) (ar_StepName r))],
              Approvals := Some (upsert (storeKey (ar_ExecutionID r) (ar_StepName r)) (Json r) data)\<rparr>)"
  by (simp add: storeUpdate_def Let_def)

lemma storedRecord_Some: "storedRecord w e s = Some r \<Longrightarrow> \<exists>data. Approvals w = Some data"
  by (auto simp: storedRecord_def split: option.splits)

text \<open>
  Claim C4, as the code has it. \<open>Approve\<close> succeeds only on a stored record that is pending,
  has not expired, and lists the approver (compared with \<open>EqualFold\<close>). On a stored record
  that is not pending it fails with NotPending and leaves the store as it was. On a
  pending, unexpired record and an approver who is not listed it fails with Unauthorized
  and leaves the store as it was, so the record stays pending. On a pending record whose
  expiry time has passed, the lookup writes the record back as expired and the attempt
  fails with NotPending, whoever the approver is. In every other failure the stored
  records are unchanged.
\<close>

theorem Approve_contract:
  "(fst (Approve L w now e s a) = None \<longrightarrow>
      (\<exists>r. storedRecord w e s = Some r \<and> ar_Status r = StatusPending \<and> now \<le> ar_ExpiresAt r
           \<and> contains L (ar_Approvers r) a))
   \<and> (\<forall>r. storedRecord w e s = Some r \<and> ar_Status r \<noteq> StatusPending \<longrightarrow>
         fst (Approve L w now e s a) = Some (NotPending (ar_Status r))
         \<and> Approvals (snd (Approve L w now e s a)) = Approvals w)
   \<and> (\<forall>r. storedRecord w e s = Some r \<and> ar_Status r = StatusPending \<and> now \<le> ar_ExpiresAt r
           \<and> \<not> contains L (ar_Approvers r) a \<longrightarrow>
         fst (Approve L w now e s a) = Some (Unauthorized a)
         \<and> Approvals (snd (Approve L w now e s a)) = Approvals w)
   \<and> (\<forall>r data. storedRecord w e s = Some r \<and> Approvals w = Some data
           \<and> ar_Status r = StatusPending \<and> ar_ExpiresAt r < now \<longrightarrow>
         fst (Approve L w now e s a) = Some (NotPending StatusExpired)
         \<and> Approvals (snd (Approve L w now e s a)) =
             Some (upsert (storeKey (ar_ExecutionID r) (ar_StepName r))
                     (Json (r\<lparr>ar_Status := StatusExpired\<rparr>)) data))
   \<and> (fst (Approve L w now e s a) \<noteq> None
        \<and> \<not> (\<exists>r. storedRecord w e s = Some r \<and> ar_Status r = StatusPending \<and> ar_ExpiresAt r < now) \<longrightarrow>
         Approvals (snd (Approve L w now e s a)) = Approvals w)"
proof (cases "storedRecord w e s")
  case None
  then show ?thesis by (simp add: Approve_def storeGet_cases)
next
  case (Some r)
  then obtain data where d: "Approvals w = Some data" using storedRecord_Some by blast
  let ?w1 = "w\<lparr>StoreCalls := StoreCalls w @ [CallGet (storeKey e s)]\<rparr>"
  have d1: "Approvals ?w1 = Some data" using d by simp
  show ?thesis
  proof (cases "ar_Status r = StatusPending")
    case False
    with Some show ?thesis by (simp add: Approve_def storeGet_cases)
  next
    case True
    note pend = this
    show ?thesis
    proof (cases "ar_ExpiresAt r < now")
      case True
      with Some pend d show ?thesis
        by (simp add: Approve_def storeGet_cases storeUpdate_Approvals [OF d1])
    next
      case False
      note fresh = this
      show ?thesis
      proof (cases "contains L (ar_Approvers r) a")
        case True
        with Some pend fresh d show ?thesis
          by (simp add: Approve_def storeGet_cases storeUpdate_Approvals [OF d1])
      next
        case False
        with Some pend fresh d show ?thesis
          by (simp add: Approve_def storeGet_cases)
      qed
    qed
  qed
qed

theorem Approve_contract_witness:
  "storedRecord pendingWorld ''run-1'' ''default'' = Some pendingRequest
   \<and> ar_Status pendingRequest = StatusPending
   \<and> 200 \<le> ar_ExpiresAt pendingRequest
   \<and> \<not> contains exampleLib (ar_Approvers pendingRequest) ''mallory''
   \<and> fst (Approve exampleLib pendingWorld 200 ''run-1'' ''default'' ''mallory'') = Some (Unauthorized ''mallory'')
   \<and> Approvals (snd (Approve exampleLib pendingWorld 200 ''run-1'' ''default'' ''mallory'')) = Approvals pendingWorld
   \<and> contains exampleLib (ar_Approvers pendingRequest) ''Alice''
   \<and> fst (Approve exampleLib pendingWorld 200 ''run-1'' ''default'' ''Alice'') = None"
proof -
  have a: "storedRecord pendingWorld ''run-1'' ''default'' = Some pendingRequest" by code_simp
  have b: "ar_Status pendingRequest = StatusPending" by (simp add: pendingRequest_def)
  have c: "200 \<le> ar_ExpiresAt pendingRequest" by (simp add: pendingRequest_def hour_def)
  have d: "\<not> contains exampleLib (ar_Approvers pendingRequest) ''mallory''" by code_simp
  have e: "contains exampleLib (ar_Approvers pendingRequest) ''Alice''" by code_simp
  have f: "fst (Approve exampleLib pendingWorld 200 ''run-1'' ''default'' ''Alice'') = None" by code_simp
  from Approve_contract [of exampleLib pendingWorld 200 "''run-1''" "''default''" "''mallory''"] a b c d
  have g: "fst (Approve exampleLib pendingWorld 200 ''run-1'' ''default'' ''mallory'') = Some (Unauthorized ''mallory'')
     \<and> Approvals (snd (Approve exampleLib pendingWorld 200 ''run-1'' ''default'' ''mallory'')) = Approvals pendingWorld"
    by blast
  show ?thesis using a b c d e f g by simp
qed

text \<open>Twenty-five hours after its creation the pending record has expired: the attempt of
  an approver who is not listed fails with NotPending, not Unauthorized, and the stored
  record is no longer pending.\<close>

theorem Approve_contract_counterexample:
  "storedRecord pendingWorld ''run-1'' ''default'' = Some pendingRequest
   \<and> ar_Status pendingRequest = StatusPending
   \<and> \<not> contains exampleLib (ar_Approvers pendingRequest) ''mallory''
   \<and> fst (Approve exampleLib pendingWorld (100 + 25 * hour) ''run-1'' ''default'' ''mallory'')
         = Some (NotPending StatusExpired)
   \<and> storedRecord (snd (Approve exampleLib pendingWorld (100 + 25 * hour) ''run-1'' ''default'' ''mallory''))
         ''run-1'' ''default'' = Some (pendingRequest\<lparr>ar_Status := StatusExpired\<rparr>)"
  by code_simp

subsection \<open>Execute without an approval checker\<close>

lemma createJob_store:
  "Approvals (snd (createJob w j)) = Approvals w \<and> StoreCalls (snd (createJob w j)) = StoreCalls w"
  by (simp add: createJob_def)

lemma LogExecution_store:
  "Approvals (LogExecution w a b c d e f g h) = Approvals w
   \<and> StoreCalls (LogExecution w a b c d e f g h) = StoreCalls w"
  by (simp add: LogExecution_def)

lemma runJob_store:
  "Approvals (snd (runJob L m wait clock w req params ec eid sc src h ri)) = Approvals w
   \<and> StoreCalls (snd (runJob L m wait clock w req params ec eid sc src h ri)) = StoreCalls w"
proof (cases "BuildContext L params (Some ec) sc (Some src) h (ri_Image ri) (ri_PullPolicy ri)
                (ri_PullSecret ri) (config m)")
  case (Inl err)
  then show ?thesis by (simp add: runJob_def)
next
  case (Inr ctx0)
  let ?job = "Build L (config m) clock
                (ctx0\<lparr>ExecutionID := eid, RunbookID := RunbookId ec, User := ec_User ec\<rparr>)"
  obtain r w1 where c: "createJob w ?job = (r, w1)" by (cases "createJob w ?job")
  with createJob_store [of w ?job] have s: "Approvals w1 = Approvals w" "StoreCalls w1 = StoreCalls w"
    by simp_all
  show ?thesis
    using Inr c s
    by (simp add: runJob_def Let_def LogExecution_store split: sum.splits)
qed

lemma NewManager_approval:
  "approval (NewManager cfg auditOpens) =
     (if ApprovalEnabled (Approval cfg) then Some (NewChecker (DefaultApprovers (Approval cfg))) else None)"
  by (simp add: NewManager_def NewManagerWithClient_def Let_def)

text \<open>
  Claim C3: a manager made from a configuration with approvals disabled has no approval
  checker, and \<open>Execute\<close> on a manager without a checker never calls the approval store
  (the log of store calls and the stored records are as before), whatever
  \<open>approval_required\<close> says: after the preparation steps it goes straight on to building
  and submitting the workload, and a failed preparation answers with its error.
\<close>

theorem Execute_without_checker:
  "(\<not> ApprovalEnabled (Approval cfg) \<longrightarrow> approval (NewManager cfg auditOpens) = None)
   \<and> (approval m = None \<longrightarrow>
        StoreCalls (snd (Execute L m wait now clock w req)) = StoreCalls w
        \<and> Approvals (snd (Execute L m wait now clock w req)) = Approvals w
        \<and> (\<forall>err. prepare L m w (requestParams req) = Inl err \<longrightarrow>
              Execute L m wait now clock w req = (errorResponse err, w))
        \<and> (\<forall>sc src h ri. prepare L m w (requestParams req) = Inr (sc, src, h, ri) \<longrightarrow>
              Execute L m wait now clock w req =
                runJob L m wait clock w req (requestParams req) (requestContext req)
                  (requestExecutionID now req) sc src h ri))"
proof -
  have g: "approval m = None \<Longrightarrow> approvalGate m w now p e r u sc h = (Inr (), w)" for p e r u sc h
    by (simp add: approvalGate_def)
  have "approval m = None \<Longrightarrow>
        StoreCalls (snd (Execute L m wait now clock w req)) = StoreCalls w
        \<and> Approvals (snd (Execute L m wait now clock w req)) = Approvals w"
    by (cases "prepare L m w (requestParams req)")
       (auto simp: Execute_def Let_def g runJob_store)
  moreover have "approval m = None \<Longrightarrow> prepare L m w (requestParams req) = Inl err \<Longrightarrow>
              Execute L m wait now clock w req = (errorResponse err, w)" for err
    by (simp add: Execute_def Let_def)
  moreover have "approval m = None \<Longrightarrow> prepare L m w (requestParams req) = Inr (sc, src, h, ri) \<Longrightarrow>
              Execute L m wait now clock w req =
                runJob L m wait clock w req (requestParams req) (requestContext req)
                  (requestExecutionID now req) sc src h ri" for sc src h ri
    by (simp add: Execute_def Let_def g)
  ultimately show ?thesis by (simp add: NewManager_approval)
qed

lemma runJob_jobs:
  assumes "BuildContext L params (Some ec) sc (Some src) h (ri_Image ri) (ri_PullPolicy ri)
             (ri_PullSecret ri) (config m) = Inr ctx0"
    and "Jobs w = []"
  shows "Jobs (snd (runJob L m wait clock w req params ec eid sc src h ri)) =
           [Build L (config m) clock (ctx0\<lparr>ExecutionID := eid, RunbookID := RunbookId ec, User := ec_User ec\<rparr>)]"
  using assms
  by (simp add: runJob_def createJob_def Let_def LogExecution_def split: sum.splits)

lemma Build_job_Name: "eid \<noteq> [] \<Longrightarrow> job_Name (Build L cfg clock (ctx\<lparr>ExecutionID := eid, RunbookID := r, User := u\<rparr>)) = ''script-exec-'' @ eid"
  by (simp add: Build_def Let_def)

lemma prepare_approvalRequest:
  "prepare exampleLib (NewManager approvalOffConfig True) scriptWorld (requestParams approvalRequest) =
     Inr ([], \<lparr> src_Type = SourcePath, src_Content = [], src_Path = ''/scripts/cleanup.sh'',
                 src_Name = [], src_Key = [], src_Namespace = [] \<rparr>, [], alpine)"
  by code_simp

lemma BuildContext_approvalRequest:
  "(case BuildContext exampleLib (requestParams approvalRequest) (Some (requestContext approvalRequest)) []
      (Some \<lparr> src_Type = SourcePath, src_Content = [], src_Path = ''/scripts/cleanup.sh'',
                 src_Name = [], src_Key = [], src_Namespace = [] \<rparr>) [] (ri_Image alpine) (ri_PullPolicy alpine)
      (ri_PullSecret alpine) (config (NewManager approvalOffConfig True)) of Inl e \<Rightarrow> False | Inr c \<Rightarrow> True)"
  by code_simp

theorem Execute_without_checker_witness:
  "\<not> ApprovalEnabled (Approval approvalOffConfig)
   \<and> approval (NewManager approvalOffConfig True) = None
   \<and> getBool (requestParams approvalRequest) ''approval_required''
   \<and> StoreCalls (snd (Execute exampleLib (NewManager approvalOffConfig True) okWait 1 1 scriptWorld approvalRequest)) = []
   \<and> Approvals (snd (Execute exampleLib (NewManager approvalOffConfig True) okWait 1 1 scriptWorld approvalRequest)) = None
   \<and> map job_Name (Jobs (snd (Execute exampleLib (NewManager approvalOffConfig True) okWait 1 1 scriptWorld approvalRequest)))
       = [''script-exec-run-1'']"
proof -
  let ?m = "NewManager approvalOffConfig True"
  let ?src = "\<lparr> src_Type = SourcePath, src_Content = [], src_Path = ''/scripts/cleanup.sh'',
                 src_Name = [], src_Key = [], src_Namespace = [] \<rparr>"
  note t = Execute_without_checker [of approvalOffConfig True ?m exampleLib okWait 1 1 scriptWorld approvalRequest]
  have off: "\<not> ApprovalEnabled (Approval approvalOffConfig)"
    by (simp add: approvalOffConfig_def)
  with t have none: "approval ?m = None" by blast
  have req: "getBool (requestParams approvalRequest) ''approval_required''" by code_simp
  from t none have store:
    "StoreCalls (snd (Execute exampleLib ?m okWait 1 1 scriptWorld approvalRequest)) = StoreCalls scriptWorld"
    "Approvals (snd (Execute exampleLib ?m okWait 1 1 scriptWorld approvalRequest)) = Approvals scriptWorld"
    by blast+
  from t none prepare_approvalRequest
  have run: "Execute exampleLib ?m okWait 1 1 scriptWorld approvalRequest =
      runJob exampleLib ?m okWait 1 scriptWorld approvalRequest (requestParams approvalRequest)
        (requestContext approvalRequest) (requestExecutionID 1 approvalRequest) [] ?src [] alpine"
    by blast
  obtain ctx0 where b: "BuildContext exampleLib (requestParams approvalRequest)
      (Some (requestContext approvalRequest)) [] (Some ?src) [] (ri_Image alpine) (ri_PullPolicy alpine)
      (ri_PullSecret alpine) (config ?m) = Inr ctx0"
    using BuildContext_approvalRequest by (auto split: sum.splits)
  have eid: "requestExecutionID 1 approvalRequest = ''run-1''" by code_simp
  have jobs: "map job_Name (Jobs (snd (Execute exampleLib ?m okWait 1 1 scriptWorld approvalRequest)))
       = [''script-exec-run-1'']"
    unfolding run
    by (simp add: runJob_jobs [OF b] scriptWorld_def eid Build_job_Name)
  show ?thesis
    using off none req store jobs by (simp add: scriptWorld_def)
qed

subsection \<open>The script hash of the response\<close>

lemma LoadScript_path_content:
  "LoadScript L w ns params = Inr (c, s) \<Longrightarrow> src_Type s = SourcePath \<Longrightarrow> c = []"
  by (auto simp: LoadScript_def split: if_splits
      dest: loadInline_type loadConfigMapRef_type loadSecretRef_type loadPath_type loadRegistryID_type)

lemma prepare_Inr:
  assumes "prepare L m w params = Inr (sc, src, h, ri)"
  shows "LoadScript L w (namespace m) params = Inr (sc, src)
         \<and> h = (if sc \<noteq> [] then Sha256Hex L sc else [])"
proof (cases "LoadScript L w (namespace m) params")
  case (Inl e)
  with assms show ?thesis by (simp add: prepare_def bindE_def)
next
  case (Inr p)
  obtain c s where p: "p = (c, s)" by (cases p)
  from assms Inr p show ?thesis
    by (simp add: prepare_def bindE_def Let_def split: sum.splits option.splits if_splits)
qed

lemma approvalGate_output:
  "approvalGate m w now p e r u sc h = (Inl resp, w1) \<Longrightarrow> resp_Output resp = None"
  by (auto simp: approvalGate_def Let_def errorResponse_def
      split: option.splits if_splits prod.splits)

lemma BuildContext_ScriptHash:
  "(case BuildContext L params e sc src h img pp ps cfg of Inl err \<Rightarrow> True | Inr ctx \<Rightarrow> ScriptHash ctx = h)"
  by (simp add: BuildContext_def bindE_def Let_def split: sum.splits)

lemma BuildContext_ScriptHash_Inr:
  assumes "BuildContext L params e sc src h img pp ps cfg = Inr ctx"
  shows "ScriptHash ctx = h"
  using assms BuildContext_ScriptHash [where L=L and params=params and e=e and sc=sc and src=src
      and h=h and img=img and pp=pp and ps=ps and cfg=cfg]
  by simp

lemma buildOutput_hash: "buildOutput L ctx result = Some out \<Longrightarrow> out_script_hash out = ScriptHash ctx"
  by (auto simp: buildOutput_def split: if_splits)

lemma runJob_output:
  assumes "resp_Output (fst (runJob L m wait clock w req params ec eid sc src h ri)) = Some out"
  shows "out_script_hash out = h"
proof (cases "BuildContext L params (Some ec) sc (Some src) h (ri_Image ri) (ri_PullPolicy ri)
                (ri_PullSecret ri) (config m)")
  case (Inl err)
  with assms show ?thesis by (simp add: runJob_def errorResponse_def)
next
  case (Inr ctx0)
  then have hh: "ScriptHash ctx0 = h" by (rule BuildContext_ScriptHash_Inr)
  let ?ctx = "ctx0\<lparr>ExecutionID := eid, RunbookID := RunbookId ec, User := ec_User ec\<rparr>"
  have hc: "ScriptHash ?ctx = h" using hh by simp
  obtain r w1 where c: "createJob w (Build L (config m) clock ?ctx) = (r, w1)"
    by (cases "createJob w (Build L (config m) clock ?ctx)")
  from assms Inr c have "\<exists>result. buildOutput L ?ctx result = Some out"
    by (auto simp: runJob_def Let_def errorResponse_def split: sum.splits if_splits)
  then show ?thesis using buildOutput_hash hc by metis
qed

text \<open>
  Claim C9, as the code has it: when the response of \<open>Execute\<close> carries an output, the
  loader returned some content for the request, and the output's script hash is the
  SHA-256 hex digest of that content when the content is not empty, and the empty string
  when it is empty. The content is empty for every path-mode source, and also for a
  ConfigMap, Secret or registry source whose stored value is empty.
\<close>

theorem Execute_script_hash:
  "resp_Output (fst (Execute L m wait now clock w req)) = Some out \<longrightarrow>
     (\<exists>content source.
        LoadScript L w (namespace m) (requestParams req) = Inr (content, source)
        \<and> out_script_hash out = (if content = [] then [] else Sha256Hex L content)
        \<and> (src_Type source = SourcePath \<longrightarrow> out_script_hash out = []))"
proof
  assume a: "resp_Output (fst (Execute L m wait now clock w req)) = Some out"
  show "\<exists>content source.
        LoadScript L w (namespace m) (requestParams req) = Inr (content, source)
        \<and> out_script_hash out = (if content = [] then [] else Sha256Hex L content)
        \<and> (src_Type source = SourcePath \<longrightarrow> out_script_hash out = [])"
  proof (cases "prepare L m w (requestParams req)")
    case (Inl err)
    with a show ?thesis by (simp add: Execute_def Let_def errorResponse_def)
  next
    case (Inr q)
    obtain sc src h ri where q: "q = (sc, src, h, ri)" by (cases q) auto
    from Inr q have p: "prepare L m w (requestParams req) = Inr (sc, src, h, ri)" by simp
    note pi = prepare_Inr [OF p]
    obtain g w1 where gate: "approvalGate m w now (requestParams req) (requestExecutionID now req)
        (RunbookId (requestContext req)) (ec_User (requestContext req)) sc h = (g, w1)"
      by (cases "approvalGate m w now (requestParams req) (requestExecutionID now req)
        (RunbookId (requestContext req)) (ec_User (requestContext req)) sc h")
    have hh: "out_script_hash out = h"
    proof (cases g)
      case (Inl resp)
      with gate approvalGate_output have "resp_Output resp = None" by metis
      with a p gate Inl show ?thesis by (simp add: Execute_def Let_def)
    next
      case (Inr u)
      with a p gate have "resp_Output (fst (runJob L m wait clock w1 req (requestParams req)
          (requestContext req) (requestExecutionID now req) sc src h ri)) = Some out"
        by (simp add: Execute_def Let_def)
      then show ?thesis by (rule runJob_output)
    qed
    have "src_Type src = SourcePath \<longrightarrow> sc = []"
      using pi LoadScript_path_content by metis
    with pi hh show ?thesis by auto
  qed
qed

lemma rounds_length: "length s = 8 \<Longrightarrow> length (rounds kws s) = 8"
proof (induction kws arbitrary: s)
  case Nil
  then show ?case by simp
next
  case (Cons kw kws)
  obtain k w where kw: "kw = (k, w)" by (cases kw)
  from Cons.prems obtain a b c d e f g h where s: "s = [a, b, c, d, e, f, g, h]"
    by (auto simp: length_Suc_conv numeral_eq_Suc)
  show ?case unfolding kw s by (simp add: Let_def Cons.IH)
qed

lemma compress_length: "length s = 8 \<Longrightarrow> length (compress s block) = 8"
  by (simp add: compress_def rounds_length)

lemma blocks_length: "length s = 8 \<Longrightarrow> length (blocks n bs s) = 8"
  by (induction n arbitrary: bs s) (simp_all add: compress_length)

lemma sha256hex_length: "length (sha256hex s) = 64"
proof -
  have "length (blocks n bs H256) = 8" for n bs
    by (rule blocks_length) (simp add: H256_def)
  then show ?thesis
    by (simp add: sha256hex_def EncodeToString_def Sum256_def Let_def length_concat comp_def sum_list_triv)
qed

lemma hexDigit_ascii: "n < 16 \<Longrightarrow> (of_char (hexDigit n) :: nat) < 128"
  by (simp add: hexDigit_def)

lemma byte_nibbles: "unat (b :: 8 word) div 16 < 16 \<and> unat b mod 16 < 16"
proof -
  have "unat b < 2 ^ LENGTH(8)" by (rule unsigned_less)
  then have "unat b < 256" by simp
  then show ?thesis by simp
qed

lemma EncodeToString_ascii: "list_all (\<lambda>c. (of_char c :: nat) < 128) (EncodeToString bs)"
  by (induction bs) (simp_all add: EncodeToString_def hexDigit_ascii byte_nibbles)

lemma sha256hex_valid: "ValidUTF8 exampleLib (sha256hex s)"
  by (simp add: exampleLib_def sha256hex_def EncodeToString_ascii)

lemma Sha256Hex_exampleLib: "Sha256Hex exampleLib = sha256hex"
  by (simp add: exampleLib_def)

lemma runJob_response:
  assumes "BuildContext L params (Some ec) sc (Some src) h (ri_Image ri) (ri_PullPolicy ri)
             (ri_PullSecret ri) (config m) = Inr ctx0"
    and "Jobs w = []"
    and "\<And>j t. wait j t = Inr result"
  shows "resp_Output (fst (runJob L m wait clock w req params ec eid sc src h ri)) =
           buildOutput L (ctx0\<lparr>ExecutionID := eid, RunbookID := RunbookId ec, User := ec_User ec\<rparr>) result"
  using assms
  by (simp add: runJob_def createJob_def Let_def)

lemma buildOutput_okResult:
  assumes "ScriptHash ctx = h" and "ValidUTF8 exampleLib h"
  shows "map_option out_script_hash (buildOutput exampleLib ctx okResult) = Some h"
proof -
  have "list_all (ValidUTF8 exampleLib) [r_Stdout okResult, r_Stderr okResult, r_JobName okResult, r_PodName okResult]"
    by code_simp
  with assms show ?thesis by (simp add: buildOutput_def)
qed

lemma approvalGate_not_required:
  "\<not> getBool params ''approval_required'' \<Longrightarrow> approvalGate m w now params e r u sc h = (Inr (), w)"
  by (simp add: approvalGate_def split: option.splits)

lemma prepare_emptyScriptRequest:
  "prepare exampleLib (NewManager (defaultConfig [] [] []) True) scriptWorld (requestParams emptyScriptRequest) =
     Inr ([], emptySource, [], alpine)"
  by code_simp

lemma LoadScript_emptyScriptRequest:
  "LoadScript exampleLib scriptWorld (namespace (NewManager (defaultConfig [] [] []) True))
     (requestParams emptyScriptRequest) = Inr ([], emptySource)"
  by code_simp

lemma BuildContext_emptyScriptRequest:
  "(case BuildContext exampleLib (requestParams emptyScriptRequest) (Some (requestContext emptyScriptRequest)) []
      (Some emptySource) [] (ri_Image alpine) (ri_PullPolicy alpine)
      (ri_PullSecret alpine) (config (NewManager (defaultConfig [] [] []) True)) of Inl e \<Rightarrow> False | Inr c \<Rightarrow> True)"
  by code_simp

text \<open>A ConfigMap source whose value is empty: the request runs, and the response carries
  the empty string as its hash, which is not the SHA-256 digest of the empty content (a
  digest has 64 hexadecimal digits).\<close>

theorem Execute_script_hash_counterexample:
  "LoadScript exampleLib scriptWorld (namespace (NewManager (defaultConfig [] [] []) True))
     (requestParams emptyScriptRequest) = Inr ([], emptySource)
   \<and> src_Type emptySource = SourceConfigMap
   \<and> map_option out_script_hash
        (resp_Output (fst (Execute exampleLib (NewManager (defaultConfig [] [] []) True) okWait 1 1
                             scriptWorld emptyScriptRequest))) = Some []
   \<and> length (Sha256Hex exampleLib []) = 64"
proof -
  let ?m = "NewManager (defaultConfig [] [] []) True"
  have nr: "\<not> getBool (requestParams emptyScriptRequest) ''approval_required''" by code_simp
  obtain ctx0 where b: "BuildContext exampleLib (requestParams emptyScriptRequest)
      (Some (requestContext emptyScriptRequest)) [] (Some emptySource) [] (ri_Image alpine)
      (ri_PullPolicy alpine) (ri_PullSecret alpine) (config ?m) = Inr ctx0"
    using BuildContext_emptyScriptRequest by (auto split: sum.splits)
  have hh: "ScriptHash (ctx0\<lparr>ExecutionID := requestExecutionID 1 emptyScriptRequest,
                RunbookID := RunbookId (requestContext emptyScriptRequest),
                User := ec_User (requestContext emptyScriptRequest)\<rparr>) = []"
    using BuildContext_ScriptHash_Inr [OF b] by simp
  have v: "ValidUTF8 exampleLib []" by code_simp
  have jw: "Jobs scriptWorld = []" by (simp add: scriptWorld_def)
  have wt: "\<And>j t. okWait j t = Inr okResult" by (simp add: okWait_def)
  have "resp_Output (fst (Execute exampleLib ?m okWait 1 1 scriptWorld emptyScriptRequest)) =
        buildOutput exampleLib (ctx0\<lparr>ExecutionID := requestExecutionID 1 emptyScriptRequest,
                RunbookID := RunbookId (requestContext emptyScriptRequest),
                User := ec_User (requestContext emptyScriptRequest)\<rparr>) okResult"
    by (simp add: Execute_def Let_def prepare_emptyScriptRequest approvalGate_not_required [OF nr]
        runJob_response [OF b jw wt])
  then have "map_option out_script_hash
        (resp_Output (fst (Execute exampleLib ?m okWait 1 1 scriptWorld emptyScriptRequest))) = Some []"
    using buildOutput_okResult [OF hh v] by simp
  moreover have "src_Type emptySource = SourceConfigMap" by (simp add: emptySource_def)
  ultimately show ?thesis
    using LoadScript_emptyScriptRequest by (simp add: Sha256Hex_exampleLib sha256hex_length)
qed


lemma LoadScript_inlineRequest:
  "LoadScript exampleLib scriptWorld (namespace (NewManager (defaultConfig [] [] []) True))
     (requestParams inlineRequest) = Inr (''echo hi'', inlineSource)"
  by code_simp

lemma Validate_inlineRequest:
  "Validate (scriptVal (NewManager (defaultConfig [] [] []) True)) ''echo hi'' = None"
  by code_simp

lemma Resolve_inlineRequest:
  "Resolve exampleLib scriptWorld (resolver (NewManager (defaultConfig [] [] []) True))
     (getString (requestParams inlineRequest) ''image'' [])
     (getString (requestParams inlineRequest) ''image_ref'' [])
     (getString (requestParams inlineRequest) ''image_pull_policy'' [])
     (getString (requestParams inlineRequest) ''image_pull_secret'' []) = Inr alpine"
  by code_simp

lemma ValidateImage_alpine:
  "ValidateImage (validator (NewManager (defaultConfig [] [] []) True)) (ri_Image alpine) = None"
  by code_simp

lemma prepare_inlineRequest:
  "prepare exampleLib (NewManager (defaultConfig [] [] []) True) scriptWorld (requestParams inlineRequest) =
     Inr (''echo hi'', inlineSource, Sha256Hex exampleLib ''echo hi'', alpine)"
  by (simp add: prepare_def bindE_def Let_def LoadScript_inlineRequest Validate_inlineRequest
      Resolve_inlineRequest ValidateImage_alpine inlineSource_def)

lemma BuildContext_ok:
  assumes "parseDuration L (getString params ''timeout'' (DefaultTimeout (Security cfg))) = Inr d"
    and "buildResources L params cfg = Inr r"
  shows "\<exists>ctx. BuildContext L params e sc src h img pp ps cfg = Inr ctx"
  by (simp add: BuildContext_def bindE_def Let_def assms)

lemma parseDuration_inlineRequest:
  "parseDuration exampleLib
     (getString (requestParams inlineRequest) ''timeout''
        (DefaultTimeout (Security (config (NewManager (defaultConfig [] [] []) True))))) = Inr (5 * minute)"
  by code_simp

lemma buildResources_inlineRequest:
  "(case buildResources exampleLib (requestParams inlineRequest)
           (config (NewManager (defaultConfig [] [] []) True)) of Inl e \<Rightarrow> False | Inr r \<Rightarrow> True)"
  by code_simp

theorem Execute_script_hash_witness:
  "LoadScript exampleLib scriptWorld (namespace (NewManager (defaultConfig [] [] []) True))
     (requestParams inlineRequest) = Inr (''echo hi'', inlineSource)
   \<and> (\<exists>out. resp_Output (fst (Execute exampleLib (NewManager (defaultConfig [] [] []) True) okWait 1 1
                                  scriptWorld inlineRequest)) = Some out
            \<and> out_script_hash out = Sha256Hex exampleLib ''echo hi'')"
proof -
  let ?m = "NewManager (defaultConfig [] [] []) True"
  let ?h = "Sha256Hex exampleLib ''echo hi''"
  have nr: "\<not> getBool (requestParams inlineRequest) ''approval_required''" by code_simp
  obtain r where br: "buildResources exampleLib (requestParams inlineRequest) (config ?m) = Inr r"
    using buildResources_inlineRequest by (auto split: sum.splits)
  from BuildContext_ok [OF parseDuration_inlineRequest br]
  obtain ctx0 where b: "BuildContext exampleLib (requestParams inlineRequest)
      (Some (requestContext inlineRequest)) ''echo hi'' (Some inlineSource) ?h (ri_Image alpine)
      (ri_PullPolicy alpine) (ri_PullSecret alpine) (config ?m) = Inr ctx0"
    by blast
  let ?ctx = "ctx0\<lparr>ExecutionID := requestExecutionID 1 inlineRequest,
                RunbookID := RunbookId (requestContext inlineRequest),
                User := ec_User (requestContext inlineRequest)\<rparr>"
  have hh: "ScriptHash ?ctx = ?h" using BuildContext_ScriptHash_Inr [OF b] by simp
  have jw: "Jobs scriptWorld = []" by (simp add: scriptWorld_def)
  have wt: "\<And>j t. okWait j t = Inr okResult" by (simp add: okWait_def)
  have ro: "resp_Output (fst (Execute exampleLib ?m okWait 1 1 scriptWorld inlineRequest)) =
        buildOutput exampleLib ?ctx okResult"
    by (simp add: Execute_def Let_def prepare_inlineRequest approvalGate_not_required [OF nr]
        runJob_response [OF b jw wt])
  have v: "ValidUTF8 exampleLib ?h" by (simp add: Sha256Hex_exampleLib sha256hex_valid)
  from buildOutput_okResult [OF hh v] ro
  obtain out where o: "resp_Output (fst (Execute exampleLib ?m okWait 1 1 scriptWorld inlineRequest)) = Some out"
    by auto
  from Execute_script_hash [of exampleLib ?m okWait 1 1 scriptWorld inlineRequest out] o
       LoadScript_inlineRequest
  have "out_script_hash out = ?h" by auto
  with o LoadScript_inlineRequest show ?thesis by blast
qed

end
